theory Spec2Isabelle
  imports Complex_Main
begin

section \<open>Dense vectors and matrices\<close>

text \<open>
  Every class of the library is a template over \<open>Scalar\<close>. The functions are modelled over
  the reals, in exact arithmetic: what a theorem says a function writes is the expression
  the code evaluates. \<open>calc\<close> of the control parametrization is modelled a second time with
  every operation rounded, for the properties that rounding decides. A \<open>VectorXs\<close> is the
  list of its coefficients. A \<open>MatrixXs\<close> has its numbers of rows and columns and its
  coefficient at \<open>(i, j)\<close>. The products, sums and block expressions of Eigen need conforming sizes
  (they assert it); the theorems below state the sizes as hypotheses.
\<close>

type_synonym VectorXs = "real list"

record MatrixXs =
  rows :: nat
  cols :: nat
  coeff :: "nat \<Rightarrow> nat \<Rightarrow> real"

text \<open>\<open>MatrixXs::Zero(r, c)\<close>, \<open>MatrixXs::Identity(r, c)\<close>, \<open>VectorXs::Zero(n)\<close>,
  \<open>VectorXs::Ones(n)\<close>.\<close>

definition Zero :: "nat \<Rightarrow> nat \<Rightarrow> MatrixXs" where
  "Zero r c = \<lparr>rows = r, cols = c, coeff = (\<lambda>i j. 0)\<rparr>"

definition Identity :: "nat \<Rightarrow> nat \<Rightarrow> MatrixXs" where
  "Identity r c = \<lparr>rows = r, cols = c, coeff = (\<lambda>i j. if i = j then 1 else 0)\<rparr>"

definition VZero :: "nat \<Rightarrow> VectorXs" where
  "VZero n = replicate n 0"

definition VOnes :: "nat \<Rightarrow> VectorXs" where
  "VOnes n = replicate n 1"

text \<open>A matrix written out row by row (the fixtures of the examples).\<close>

definition of_rows :: "nat \<Rightarrow> nat \<Rightarrow> real list list \<Rightarrow> MatrixXs" where
  "of_rows r c xss = \<lparr>rows = r, cols = c, coeff = (\<lambda>i j. xss ! i ! j)\<rparr>"

text \<open>\<open>M.transpose()\<close>, \<open>M * x\<close>, \<open>x.dot(y)\<close>, \<open>x + y\<close>, \<open>a * x\<close>, \<open>a * M\<close>.\<close>

definition mat_transpose :: "MatrixXs \<Rightarrow> MatrixXs" where
  "mat_transpose M = \<lparr>rows = cols M, cols = rows M, coeff = (\<lambda>i j. coeff M j i)\<rparr>"

definition mat_vec :: "MatrixXs \<Rightarrow> VectorXs \<Rightarrow> VectorXs" where
  "mat_vec M x = map (\<lambda>i. \<Sum>j\<leftarrow>[0..<cols M]. coeff M i j * x ! j) [0..<rows M]"

definition dot :: "VectorXs \<Rightarrow> VectorXs \<Rightarrow> real" where
  "dot x y = (\<Sum>i\<leftarrow>[0..<length x]. x ! i * y ! i)"

definition vec_add :: "VectorXs \<Rightarrow> VectorXs \<Rightarrow> VectorXs" where
  "vec_add x y = map2 (+) x y"

definition vec_scale :: "real \<Rightarrow> VectorXs \<Rightarrow> VectorXs" where
  "vec_scale a x = map ((*) a) x"

definition mat_scale :: "real \<Rightarrow> MatrixXs \<Rightarrow> MatrixXs" where
  "mat_scale a M = M\<lparr>coeff := (\<lambda>i j. a * coeff M i j)\<rparr>"

text \<open>The product \<open>A * B\<close> of two matrices, for the statements that name one.\<close>

definition mat_mul :: "MatrixXs \<Rightarrow> MatrixXs \<Rightarrow> MatrixXs" where
  "mat_mul A B =
     \<lparr>rows = rows A, cols = cols B,
      coeff = (\<lambda>i j. \<Sum>k\<leftarrow>[0..<cols A]. coeff A i k * coeff B k j)\<rparr>"

text \<open>Segments of a vector: \<open>x.head(n)\<close>, \<open>x.segment(s, n)\<close>, \<open>x.tail(n)\<close>, read and
  assigned.\<close>

definition head :: "VectorXs \<Rightarrow> nat \<Rightarrow> VectorXs" where
  "head x n = take n x"

definition segment :: "VectorXs \<Rightarrow> nat \<Rightarrow> nat \<Rightarrow> VectorXs" where
  "segment x s n = take n (drop s x)"

definition tail :: "VectorXs \<Rightarrow> nat \<Rightarrow> VectorXs" where
  "tail x n = drop (length x - n) x"

definition set_segment :: "VectorXs \<Rightarrow> nat \<Rightarrow> nat \<Rightarrow> VectorXs \<Rightarrow> VectorXs" where
  "set_segment x s n v = take s x @ take n v @ drop (s + n) x"

definition set_head :: "VectorXs \<Rightarrow> nat \<Rightarrow> VectorXs \<Rightarrow> VectorXs" where
  "set_head x n v = set_segment x 0 n v"

definition set_tail :: "VectorXs \<Rightarrow> nat \<Rightarrow> VectorXs \<Rightarrow> VectorXs" where
  "set_tail x n v = set_segment x (length x - n) n v"

text \<open>
  Blocks of a matrix. \<open>block_upd g out r0 c0 nr nc E\<close> is the assignment
  \<open>out.block(r0, c0, nr, nc) \<circ>= E\<close>, where \<open>g old new\<close> is the new coefficient: the second
  argument for \<open>=\<close>, the sum for \<open>+=\<close>, the difference for \<open>-=\<close>. The named blocks are
  \<open>leftCols(n) = block(0, 0, rows, n)\<close>, \<open>middleCols(s, n) = block(0, s, rows, n)\<close>,
  \<open>rightCols(n) = block(0, cols - n, rows, n)\<close>, and the same for rows.
\<close>

definition block_upd ::
  "(real \<Rightarrow> real \<Rightarrow> real) \<Rightarrow> MatrixXs \<Rightarrow> nat \<Rightarrow> nat \<Rightarrow> nat \<Rightarrow> nat \<Rightarrow> MatrixXs \<Rightarrow> MatrixXs" where
  "block_upd g out r0 c0 nr nc E =
     out\<lparr>coeff := (\<lambda>i j. if r0 \<le> i \<and> i < r0 + nr \<and> c0 \<le> j \<and> j < c0 + nc
                          then g (coeff out i j) (coeff E (i - r0) (j - c0))
                          else coeff out i j)\<rparr>"

definition leftCols_upd :: "(real \<Rightarrow> real \<Rightarrow> real) \<Rightarrow> MatrixXs \<Rightarrow> nat \<Rightarrow> MatrixXs \<Rightarrow> MatrixXs" where
  "leftCols_upd g out n E = block_upd g out 0 0 (rows out) n E"

definition middleCols_upd ::
  "(real \<Rightarrow> real \<Rightarrow> real) \<Rightarrow> MatrixXs \<Rightarrow> nat \<Rightarrow> nat \<Rightarrow> MatrixXs \<Rightarrow> MatrixXs" where
  "middleCols_upd g out s n E = block_upd g out 0 s (rows out) n E"

definition rightCols_upd :: "(real \<Rightarrow> real \<Rightarrow> real) \<Rightarrow> MatrixXs \<Rightarrow> nat \<Rightarrow> MatrixXs \<Rightarrow> MatrixXs" where
  "rightCols_upd g out n E = block_upd g out 0 (cols out - n) (rows out) n E"

definition topRows_upd :: "(real \<Rightarrow> real \<Rightarrow> real) \<Rightarrow> MatrixXs \<Rightarrow> nat \<Rightarrow> MatrixXs \<Rightarrow> MatrixXs" where
  "topRows_upd g out n E = block_upd g out 0 0 n (cols out) E"

definition middleRows_upd ::
  "(real \<Rightarrow> real \<Rightarrow> real) \<Rightarrow> MatrixXs \<Rightarrow> nat \<Rightarrow> nat \<Rightarrow> MatrixXs \<Rightarrow> MatrixXs" where
  "middleRows_upd g out s n E = block_upd g out s 0 n (cols out) E"

definition bottomRows_upd :: "(real \<Rightarrow> real \<Rightarrow> real) \<Rightarrow> MatrixXs \<Rightarrow> nat \<Rightarrow> MatrixXs \<Rightarrow> MatrixXs" where
  "bottomRows_upd g out n E = block_upd g out (rows out - n) 0 n (cols out) E"

text \<open>\<open>out.block(0, c0, rows, n).diagonal().array() = v\<close>: the diagonal of a block of
  \<open>n\<close> columns, which has \<open>min rows n\<close> coefficients, is filled with \<open>v\<close>.\<close>

definition cols_diagonal_fill :: "MatrixXs \<Rightarrow> nat \<Rightarrow> nat \<Rightarrow> real \<Rightarrow> MatrixXs" where
  "cols_diagonal_fill out c0 n v =
     out\<lparr>coeff := (\<lambda>i j. if i < min (rows out) n \<and> j = c0 + i then v else coeff out i j)\<rparr>"

section \<open>Exceptions\<close>

text \<open>
  \<open>throw_pretty\<close> throws the library's one exception, with a message. A function that
  mutates an object returns \<open>Ok s\<close> with the object after the call, or \<open>Throw e s\<close> with the
  exception and the object as it is when the exception leaves the function.
\<close>

datatype error = InvalidArgument string

datatype 's outcome = Ok 's | Throw error 's

fun thrown :: "'s outcome \<Rightarrow> bool" where
  "thrown (Ok s) = False"
| "thrown (Throw e s) = True"

fun state_of :: "'s outcome \<Rightarrow> 's" where
  "state_of (Ok s) = s"
| "state_of (Throw e s) = s"

section \<open>Rounded arithmetic\<close>

text \<open>
  Built with \<open>Scalar = double\<close>, every arithmetic operation returns its exact result rounded
  to the nearest binary64 number, ties to even (one rounding for each operation of the
  source, none fused). \<open>rd_double\<close> is that rounding, on the reals. \<open>binade x\<close> is the
  exponent \<open>k\<close> with \<open>2 powi k \<le> \<bar>x\<bar> < 2 powi (k + 1)\<close>, and \<open>-1022\<close> for every smaller \<open>x\<close>
  (the subnormal numbers), found by doubling \<open>2 powi (-1022)\<close> until it passes \<open>\<bar>x\<bar>\<close>; the
  doubles of that binade are the multiples of \<open>2 powi (k - 52)\<close>, and \<open>x\<close> is rounded to the
  nearest of them. Overflow (\<open>\<bar>x\<bar> \<ge> 2 powi 1024\<close>), infinities and NaN are outside the
  model. A function modelled with rounding takes the rounding \<open>rd\<close> as an argument:
  \<open>rd_double\<close> for the code as built, the identity for exact arithmetic.
\<close>

definition round_even :: "real \<Rightarrow> int" where
  "round_even x =
     (let f = \<lfloor>x\<rfloor> in
      if x - of_int f < 1 / 2 then f
      else if 1 / 2 < x - of_int f then f + 1
      else if even f then f else f + 1)"

primrec binade_scan :: "nat \<Rightarrow> int \<Rightarrow> real \<Rightarrow> real \<Rightarrow> int" where
  "binade_scan 0 k p x = k"
| "binade_scan (Suc n) k p x = (if x < 2 * p then k else binade_scan n (k + 1) (2 * p) x)"

definition binade :: "real \<Rightarrow> int" where
  "binade x = binade_scan 2045 (- 1022) (2 powi (- 1022)) \<bar>x\<bar>"

definition rd_double :: "real \<Rightarrow> real" where
  "rd_double x = of_int (round_even (x / 2 powi (binade x - 52))) * 2 powi (binade x - 52)"

text \<open>\<open>a * x\<close> and \<open>x + y\<close> on vectors, each coefficient rounded.\<close>

definition vec_scale_rd :: "(real \<Rightarrow> real) \<Rightarrow> real \<Rightarrow> VectorXs \<Rightarrow> VectorXs" where
  "vec_scale_rd rd a x = map (\<lambda>v. rd (a * v)) x"

definition vec_add_rd :: "(real \<Rightarrow> real) \<Rightarrow> VectorXs \<Rightarrow> VectorXs \<Rightarrow> VectorXs" where
  "vec_add_rd rd x y = map2 (\<lambda>a b. rd (a + b)) x y"

section \<open>The quadratic control parametrization of RK4 (poly-two-rk4.hxx)\<close>

text \<open>
  The model holds \<open>nw_\<close> and \<open>nu_\<close>; the constructor sets \<open>nu_ = 3 * nw_\<close>. The data holds
  the fields \<open>w\<close>, \<open>u\<close>, \<open>dw_du\<close>, the array \<open>c\<close> of three coefficients and \<open>tmp_t2\<close>
  (\<open>w\<close>, \<open>u\<close> and \<open>c\<close> are written \<open>d_w\<close>, \<open>d_u\<close> and \<open>d_c\<close>). The buffers of a data
  are allocated for its model: \<open>w\<close> has length \<open>nw\<close>, \<open>u\<close> has length \<open>nu\<close> and \<open>dw_du\<close> is
  \<open>nw \<times> nu\<close>, so the segments and blocks that the functions name lie inside them.
\<close>

record ControlParametrizationModelPolyTwoRK4 =
  nw :: nat
  nu :: nat

definition PolyTwoRK4 :: "nat \<Rightarrow> ControlParametrizationModelPolyTwoRK4" where
  "PolyTwoRK4 n = \<lparr>nw = n, nu = 3 * n\<rparr>"

record ControlParametrizationDataPolyTwoRK4 =
  d_w :: VectorXs
  d_u :: VectorXs
  dw_du :: MatrixXs
  d_c :: "nat \<Rightarrow> real"
  tmp_t2 :: real

definition PolyTwoRK4_calc ::
  "ControlParametrizationModelPolyTwoRK4 \<Rightarrow> ControlParametrizationDataPolyTwoRK4 \<Rightarrow> real \<Rightarrow>
   VectorXs \<Rightarrow> ControlParametrizationDataPolyTwoRK4 outcome" where
  "PolyTwoRK4_calc m d t u =
     (if length u \<noteq> nu m then Throw (InvalidArgument ''u has wrong dimension'') d
      else
        let p0 = head u (nw m);
            p1 = segment u (nw m) (nw m);
            p2 = tail u (nw m);
            d = d\<lparr>tmp_t2 := t * t\<rparr>;
            d = d\<lparr>d_c := (d_c d)(2 := 2 * tmp_t2 d - t)\<rparr>;
            d = d\<lparr>d_c := (d_c d)(1 := - 2 * d_c d 2 + 2 * t)\<rparr>;
            d = d\<lparr>d_c := (d_c d)(0 := d_c d 2 - 2 * t + 1)\<rparr>;
            d = d\<lparr>d_w := vec_add (vec_add (vec_scale (d_c d 2) p2) (vec_scale (d_c d 1) p1))
                                (vec_scale (d_c d 0) p0)\<rparr>
        in Ok d)"

text \<open>
  \<open>calc\<close> again, statement by statement, with the result of every operation rounded by
  \<open>rd\<close>: \<open>t * t\<close>; \<open>2 * tmp_t2\<close> and the difference with \<open>t\<close>; \<open>-2 * c[2]\<close>, \<open>2 * t\<close> and
  their sum; \<open>c[2] - 2 * t\<close> and the sum with \<open>1\<close>; the three products and the two sums of
  each coefficient of \<open>w\<close>. The literals \<open>2\<close>, \<open>-2\<close> and \<open>1\<close> are doubles.
\<close>

definition PolyTwoRK4_calc_rounded ::
  "(real \<Rightarrow> real) \<Rightarrow> ControlParametrizationModelPolyTwoRK4 \<Rightarrow>
   ControlParametrizationDataPolyTwoRK4 \<Rightarrow> real \<Rightarrow> VectorXs \<Rightarrow>
   ControlParametrizationDataPolyTwoRK4 outcome" where
  "PolyTwoRK4_calc_rounded rd m d t u =
     (if length u \<noteq> nu m then Throw (InvalidArgument ''u has wrong dimension'') d
      else
        let p0 = head u (nw m);
            p1 = segment u (nw m) (nw m);
            p2 = tail u (nw m);
            d = d\<lparr>tmp_t2 := rd (t * t)\<rparr>;
            d = d\<lparr>d_c := (d_c d)(2 := rd (rd (2 * tmp_t2 d) - t))\<rparr>;
            d = d\<lparr>d_c := (d_c d)(1 := rd (rd (- 2 * d_c d 2) + rd (2 * t)))\<rparr>;
            d = d\<lparr>d_c := (d_c d)(0 := rd (rd (d_c d 2 - rd (2 * t)) + 1))\<rparr>;
            d = d\<lparr>d_w := vec_add_rd rd
                          (vec_add_rd rd (vec_scale_rd rd (d_c d 2) p2)
                             (vec_scale_rd rd (d_c d 1) p1))
                          (vec_scale_rd rd (d_c d 0) p0)\<rparr>
        in Ok d)"

text \<open>\<open>calcDiff\<close> names neither its time nor its control argument.\<close>

definition PolyTwoRK4_calcDiff ::
  "ControlParametrizationModelPolyTwoRK4 \<Rightarrow> ControlParametrizationDataPolyTwoRK4 \<Rightarrow> real \<Rightarrow>
   VectorXs \<Rightarrow> ControlParametrizationDataPolyTwoRK4 outcome" where
  "PolyTwoRK4_calcDiff m d t u =
     (let d = d\<lparr>dw_du := cols_diagonal_fill (dw_du d) 0 (nw m) (d_c d 0)\<rparr>;
          d = d\<lparr>dw_du := cols_diagonal_fill (dw_du d) (nw m) (nw m) (d_c d 1)\<rparr>;
          d = d\<lparr>dw_du := cols_diagonal_fill (dw_du d) (cols (dw_du d) - nw m) (nw m) (d_c d 2)\<rparr>
      in Ok d)"

definition PolyTwoRK4_params ::
  "ControlParametrizationModelPolyTwoRK4 \<Rightarrow> ControlParametrizationDataPolyTwoRK4 \<Rightarrow> real \<Rightarrow>
   VectorXs \<Rightarrow> ControlParametrizationDataPolyTwoRK4 outcome" where
  "PolyTwoRK4_params m d t w =
     (if length w \<noteq> nw m then Throw (InvalidArgument ''w has wrong dimension'') d
      else
        let d = d\<lparr>d_u := set_head (d_u d) (nw m) w\<rparr>;
            d = d\<lparr>d_u := set_segment (d_u d) (nw m) (nw m) w\<rparr>;
            d = d\<lparr>d_u := set_tail (d_u d) (nw m) w\<rparr>
        in Ok d)"

text \<open>
  The accumulation mode is the enumeration \<open>AssignmentOp {setto, addto, rmfrom}\<close>;
  \<open>other_op\<close> stands for a value outside the enumeration (an integer cast to it), which
  the \<open>default\<close> branch of the two switches receives. \<open>is_a_AssignmentOp\<close> is declared
  beside the enumeration and tells whether its argument is one of the three enumerators.
  \<open>assert_pretty\<close> throws the same exception as \<open>throw_pretty\<close> when its condition fails,
  in a build with assertions, and is empty in a build without: \<open>asserts\<close> tells which
  build it is.
\<close>

datatype AssignmentOp = setto | addto | rmfrom | other_op

definition is_a_AssignmentOp :: "AssignmentOp \<Rightarrow> bool" where
  "is_a_AssignmentOp op = (op = setto \<or> op = addto \<or> op = rmfrom)"

definition assign :: "real \<Rightarrow> real \<Rightarrow> real" where
  "assign old new = new"

definition multiplyByJacobian ::
  "bool \<Rightarrow> ControlParametrizationModelPolyTwoRK4 \<Rightarrow> ControlParametrizationDataPolyTwoRK4 \<Rightarrow>
   MatrixXs \<Rightarrow> MatrixXs \<Rightarrow> AssignmentOp \<Rightarrow> MatrixXs outcome" where
  "multiplyByJacobian asserts m d A out op =
     (if asserts \<and> \<not> is_a_AssignmentOp op
      then Throw (InvalidArgument ''op must be one of the AssignmentOp {settop, addto, rmfrom}'') out
      else if rows A \<noteq> rows out \<or> cols A \<noteq> nw m \<or> cols out \<noteq> nu m
      then Throw (InvalidArgument ''A and out have wrong dimensions'') out
      else case op of
        setto \<Rightarrow>
          let out = leftCols_upd assign out (nw m) (mat_scale (d_c d 0) A);
              out = middleCols_upd assign out (nw m) (nw m) (mat_scale (d_c d 1) A);
              out = rightCols_upd assign out (nw m) (mat_scale (d_c d 2) A)
          in Ok out
      | addto \<Rightarrow>
          let out = leftCols_upd (+) out (nw m) (mat_scale (d_c d 0) A);
              out = middleCols_upd (+) out (nw m) (nw m) (mat_scale (d_c d 1) A);
              out = rightCols_upd (+) out (nw m) (mat_scale (d_c d 2) A)
          in Ok out
      | rmfrom \<Rightarrow>
          let out = leftCols_upd (-) out (nw m) (mat_scale (d_c d 0) A);
              out = middleCols_upd (-) out (nw m) (nw m) (mat_scale (d_c d 1) A);
              out = rightCols_upd (-) out (nw m) (mat_scale (d_c d 2) A)
          in Ok out
      | other_op \<Rightarrow>
          Throw (InvalidArgument ''allowed operators: setto, addto, rmfrom'') out)"

definition multiplyJacobianTransposeBy ::
  "bool \<Rightarrow> ControlParametrizationModelPolyTwoRK4 \<Rightarrow> ControlParametrizationDataPolyTwoRK4 \<Rightarrow>
   MatrixXs \<Rightarrow> MatrixXs \<Rightarrow> AssignmentOp \<Rightarrow> MatrixXs outcome" where
  "multiplyJacobianTransposeBy asserts m d A out op =
     (if asserts \<and> \<not> is_a_AssignmentOp op
      then Throw (InvalidArgument ''op must be one of the AssignmentOp {settop, addto, rmfrom}'') out
      else if cols A \<noteq> cols out \<or> rows A \<noteq> nw m \<or> rows out \<noteq> nu m
      then Throw (InvalidArgument ''A and out have wrong dimensions'') out
      else case op of
        setto \<Rightarrow>
          let out = topRows_upd assign out (nw m) (mat_scale (d_c d 0) A);
              out = middleRows_upd assign out (nw m) (nw m) (mat_scale (d_c d 1) A);
              out = bottomRows_upd assign out (nw m) (mat_scale (d_c d 2) A)
          in Ok out
      | addto \<Rightarrow>
          let out = topRows_upd (+) out (nw m) (mat_scale (d_c d 0) A);
              out = middleRows_upd (+) out (nw m) (nw m) (mat_scale (d_c d 1) A);
              out = bottomRows_upd (+) out (nw m) (mat_scale (d_c d 2) A)
          in Ok out
      | rmfrom \<Rightarrow>
          let out = topRows_upd (-) out (nw m) (mat_scale (d_c d 0) A);
              out = middleRows_upd (-) out (nw m) (nw m) (mat_scale (d_c d 1) A);
              out = bottomRows_upd (-) out (nw m) (mat_scale (d_c d 2) A)
          in Ok out
      | other_op \<Rightarrow>
          Throw (InvalidArgument ''allowed operators: setto, addto, rmfrom'') out)"

text \<open>
  The coefficient formulas as the specification writes them, as functions of the time,
  to compare with what the data holds.
\<close>

definition basis_c2 :: "real \<Rightarrow> real" where
  "basis_c2 t = 2 * t\<^sup>2 - t"

definition basis_c1 :: "real \<Rightarrow> real" where
  "basis_c1 t = - 2 * basis_c2 t + 2 * t"

definition basis_c0 :: "real \<Rightarrow> real" where
  "basis_c0 t = basis_c2 t - 2 * t + 1"

text \<open>
  The Jacobian as the specification writes it, the block row \<open>[c0 I, c1 I, c2 I]\<close>; the
  coefficient of the third in which a column (or row) \<open>j\<close> of \<open>3 n\<close> lies; and the three
  accumulation modes as the specification names them: overwrite, add, subtract.
\<close>

definition block_row :: "nat \<Rightarrow> real \<Rightarrow> real \<Rightarrow> real \<Rightarrow> MatrixXs" where
  "block_row n c0 c1 c2 =
     \<lparr>rows = n, cols = 3 * n,
      coeff = (\<lambda>k j. if j = k then c0 else if j = n + k then c1
                       else if j = 2 * n + k then c2 else 0)\<rparr>"

definition third :: "nat \<Rightarrow> nat \<Rightarrow> real \<Rightarrow> real \<Rightarrow> real \<Rightarrow> real" where
  "third n j c0 c1 c2 = (if j < n then c0 else if j < 2 * n then c1 else c2)"

definition accumulate :: "AssignmentOp \<Rightarrow> real \<Rightarrow> real \<Rightarrow> real" where
  "accumulate op old new =
     (case op of setto \<Rightarrow> new | addto \<Rightarrow> old + new | rmfrom \<Rightarrow> old - new | other_op \<Rightarrow> old)"

text \<open>A data of the model with \<open>nw = n\<close> whose buffers are all zero, for the examples.\<close>

definition zero_data :: "nat \<Rightarrow> ControlParametrizationDataPolyTwoRK4" where
  "zero_data n =
     \<lparr>d_w = VZero n, d_u = VZero (3 * n), dw_du = Zero n (3 * n), d_c = (\<lambda>k. 0), tmp_t2 = 0\<rparr>"

text \<open>The data of the model with \<open>nw = 1\<close> after \<open>calc\<close> at \<open>t = 1/4\<close>, for the examples: its
  coefficients are \<open>3/8\<close>, \<open>3/4\<close> and \<open>-1/8\<close>.\<close>

definition quarter_data :: ControlParametrizationDataPolyTwoRK4 where
  "quarter_data = state_of (PolyTwoRK4_calc (PolyTwoRK4 1) (zero_data 1) (1 / 4) [0, 0, 0])"

section \<open>The linear-quadratic action model (lqr.hxx)\<close>

text \<open>
  The model holds the dimension \<open>nx\<close> of its state (\<open>state_->get_nx()\<close>), \<open>nu_\<close>, the
  matrices \<open>A_\<close>, \<open>B_\<close>, \<open>Q_\<close>, \<open>R_\<close>, \<open>N_\<close>, the vectors \<open>f_\<close>, \<open>q_\<close>, \<open>r_\<close>, the matrix \<open>H_\<close>
  that \<open>set_LQR\<close> assembles, and \<open>drift_free_\<close>. The accessors \<open>get_A\<close>, ..., \<open>get_r\<close> return
  the eight fields \<open>A_\<close>, ..., \<open>r_\<close>; \<open>H_\<close> has no accessor. The data holds the buffers that
  \<open>calc\<close> and \<open>calcDiff\<close> write.
\<close>

record ActionModelLQR =
  lqr_nx :: nat
  lqr_nu :: nat
  lqr_A :: MatrixXs
  lqr_B :: MatrixXs
  lqr_Q :: MatrixXs
  lqr_R :: MatrixXs
  lqr_N :: MatrixXs
  lqr_f :: VectorXs
  lqr_q :: VectorXs
  lqr_r :: VectorXs
  lqr_H :: MatrixXs
  drift_free :: bool

record ActionDataLQR =
  xnext :: VectorXs
  cost :: real
  Fx :: MatrixXs
  Fu :: MatrixXs
  Lx :: VectorXs
  Lu :: VectorXs
  Lxx :: MatrixXs
  Luu :: MatrixXs
  Lxu :: MatrixXs
  Q_x_tmp :: VectorXs
  R_u_tmp :: VectorXs

definition LQR_calc :: "ActionModelLQR \<Rightarrow> ActionDataLQR \<Rightarrow> VectorXs \<Rightarrow> VectorXs \<Rightarrow> ActionDataLQR outcome" where
  "LQR_calc m d x u =
     (if length x \<noteq> lqr_nx m then Throw (InvalidArgument ''x has wrong dimension'') d
      else if length u \<noteq> lqr_nu m then Throw (InvalidArgument ''u has wrong dimension'') d
      else
        let d = d\<lparr>xnext := mat_vec (lqr_A m) x\<rparr>;
            d = d\<lparr>xnext := vec_add (xnext d) (mat_vec (lqr_B m) u)\<rparr>;
            d = d\<lparr>xnext := vec_add (xnext d) (lqr_f m)\<rparr>;
            d = d\<lparr>Q_x_tmp := mat_vec (lqr_Q m) x\<rparr>;
            d = d\<lparr>cost := 0.5 * dot x (Q_x_tmp d)\<rparr>;
            d = d\<lparr>R_u_tmp := mat_vec (lqr_R m) u\<rparr>;
            d = d\<lparr>cost := cost d + 0.5 * dot u (R_u_tmp d)\<rparr>;
            d = d\<lparr>Q_x_tmp := mat_vec (lqr_N m) u\<rparr>;
            d = d\<lparr>cost := cost d + dot x (Q_x_tmp d)\<rparr>;
            d = d\<lparr>cost := cost d + dot (lqr_q m) x\<rparr>;
            d = d\<lparr>cost := cost d + dot (lqr_r m) u\<rparr>
        in Ok d)"

definition LQR_calc_terminal :: "ActionModelLQR \<Rightarrow> ActionDataLQR \<Rightarrow> VectorXs \<Rightarrow> ActionDataLQR outcome" where
  "LQR_calc_terminal m d x =
     (if length x \<noteq> lqr_nx m then Throw (InvalidArgument ''x has wrong dimension'') d
      else
        let d = d\<lparr>xnext := x\<rparr>;
            d = d\<lparr>Q_x_tmp := mat_vec (lqr_Q m) x\<rparr>;
            d = d\<lparr>cost := 0.5 * dot x (Q_x_tmp d)\<rparr>;
            d = d\<lparr>cost := cost d + dot (lqr_q m) x\<rparr>
        in Ok d)"

definition LQR_calcDiff :: "ActionModelLQR \<Rightarrow> ActionDataLQR \<Rightarrow> VectorXs \<Rightarrow> VectorXs \<Rightarrow> ActionDataLQR outcome" where
  "LQR_calcDiff m d x u =
     (if length x \<noteq> lqr_nx m then Throw (InvalidArgument ''x has wrong dimension'') d
      else if length u \<noteq> lqr_nu m then Throw (InvalidArgument ''u has wrong dimension'') d
      else
        let d = d\<lparr>Fx := lqr_A m\<rparr>;
            d = d\<lparr>Fu := lqr_B m\<rparr>;
            d = d\<lparr>Lxx := lqr_Q m\<rparr>;
            d = d\<lparr>Luu := lqr_R m\<rparr>;
            d = d\<lparr>Lxu := lqr_N m\<rparr>;
            d = d\<lparr>Lx := lqr_q m\<rparr>;
            d = d\<lparr>Lx := vec_add (Lx d) (mat_vec (lqr_Q m) x)\<rparr>;
            d = d\<lparr>Lx := vec_add (Lx d) (mat_vec (lqr_N m) u)\<rparr>;
            d = d\<lparr>Lu := lqr_r m\<rparr>;
            d = d\<lparr>Lu := vec_add (Lu d) (mat_vec (mat_transpose (lqr_N m)) x)\<rparr>;
            d = d\<lparr>Lu := vec_add (Lu d) (mat_vec (lqr_R m) u)\<rparr>
        in Ok d)"

definition LQR_calcDiff_terminal :: "ActionModelLQR \<Rightarrow> ActionDataLQR \<Rightarrow> VectorXs \<Rightarrow> ActionDataLQR outcome" where
  "LQR_calcDiff_terminal m d x =
     (if length x \<noteq> lqr_nx m then Throw (InvalidArgument ''x has wrong dimension'') d
      else
        let d = d\<lparr>Lxx := lqr_Q m\<rparr>;
            d = d\<lparr>Lx := lqr_q m\<rparr>;
            d = d\<lparr>Lx := vec_add (Lx d) (mat_vec (lqr_Q m) x)\<rparr>
        in Ok d)"

text \<open>
  \<open>H_ = MatrixXs::Zero(nx + nu_, nx + nu_); H_ << Q, N, N.transpose(), R;\<close> The comma
  initializer fills the matrix block by block, from left to right and then downwards.
\<close>

definition assemble_H :: "nat \<Rightarrow> nat \<Rightarrow> MatrixXs \<Rightarrow> MatrixXs \<Rightarrow> MatrixXs \<Rightarrow> MatrixXs" where
  "assemble_H n k Q N R =
     (let H = Zero (n + k) (n + k);
          H = block_upd assign H 0 0 (rows Q) (cols Q) Q;
          H = block_upd assign H 0 (cols Q) (rows N) (cols N) N;
          H = block_upd assign H (rows Q) 0 (cols N) (rows N) (mat_transpose N);
          H = block_upd assign H (rows Q) (rows N) (rows R) (cols R) R
      in H)"

text \<open>
  \<open>set_LQR\<close> calls two functions of Eigen on \<open>H_\<close>: \<open>isApprox\<close>, which compares two
  matrices up to a precision, and the Cholesky factorization \<open>Eigen::LLT\<close>, whose \<open>info()\<close>
  is a \<open>ComputationInfo\<close>. Both are parameters of the model of \<open>set_LQR\<close>.
\<close>

datatype ComputationInfo = Success | NumericalIssue | NoConvergence | InvalidInput

definition set_LQR ::
  "(MatrixXs \<Rightarrow> MatrixXs \<Rightarrow> bool) \<Rightarrow> (MatrixXs \<Rightarrow> ComputationInfo) \<Rightarrow> ActionModelLQR \<Rightarrow>
   MatrixXs \<Rightarrow> MatrixXs \<Rightarrow> MatrixXs \<Rightarrow> MatrixXs \<Rightarrow> MatrixXs \<Rightarrow> VectorXs \<Rightarrow> VectorXs \<Rightarrow> VectorXs \<Rightarrow>
   ActionModelLQR outcome" where
  "set_LQR isApprox llt_info m A B Q R N f q r =
     (let n = lqr_nx m in
      if rows A \<noteq> n
      then Throw (InvalidArgument ''A should be a squared matrix with size nx'') m
      else if rows B \<noteq> n
      then Throw (InvalidArgument ''B has wrong dimension'') m
      else if rows Q \<noteq> n \<or> cols Q \<noteq> n
      then Throw (InvalidArgument ''Q has wrong dimension'') m
      else if rows R \<noteq> lqr_nu m \<or> cols R \<noteq> lqr_nu m
      then Throw (InvalidArgument ''R has wrong dimension'') m
      else if rows N \<noteq> n \<or> cols N \<noteq> lqr_nu m
      then Throw (InvalidArgument ''N has wrong dimension'') m
      else if length f \<noteq> n
      then Throw (InvalidArgument ''f has wrong dimension'') m
      else if length q \<noteq> n
      then Throw (InvalidArgument ''q has wrong dimension'') m
      else if length r \<noteq> lqr_nu m
      then Throw (InvalidArgument ''r has wrong dimension'') m
      else
        let m = m\<lparr>lqr_H := assemble_H n (lqr_nu m) Q N R\<rparr> in
        if \<not> isApprox (lqr_H m) (mat_transpose (lqr_H m)) \<or> llt_info (lqr_H m) = NumericalIssue
        then Throw (InvalidArgument ''[Q, N; N.T, R] is not semi-positive definite'') m
        else Ok (m\<lparr>lqr_A := A, lqr_B := B, lqr_f := f, lqr_Q := Q, lqr_R := R, lqr_N := N,
                    lqr_q := q, lqr_r := r\<rparr>))"

text \<open>
  The constructors. The one from the dimensions fills the fields itself; the two from the
  matrices take \<open>nx\<close> from \<open>A.cols()\<close> and \<open>nu\<close> from \<open>B.cols()\<close> and call \<open>set_LQR\<close> on the
  object, whose matrices and vectors are still empty.
\<close>

definition ActionModelLQR_dims :: "nat \<Rightarrow> nat \<Rightarrow> bool \<Rightarrow> ActionModelLQR" where
  "ActionModelLQR_dims n k df =
     \<lparr>lqr_nx = n, lqr_nu = k, lqr_A = Identity n n, lqr_B = Identity n k, lqr_Q = Identity n n,
      lqr_R = Identity k k, lqr_N = Zero n k, lqr_f = (if df then VZero n else VOnes n),
      lqr_q = VOnes n, lqr_r = VOnes k, lqr_H = Zero 0 0, drift_free = df\<rparr>"

definition empty_model :: "nat \<Rightarrow> nat \<Rightarrow> bool \<Rightarrow> ActionModelLQR" where
  "empty_model n k df =
     \<lparr>lqr_nx = n, lqr_nu = k, lqr_A = Zero 0 0, lqr_B = Zero 0 0, lqr_Q = Zero 0 0,
      lqr_R = Zero 0 0, lqr_N = Zero 0 0, lqr_f = [], lqr_q = [], lqr_r = [],
      lqr_H = Zero 0 0, drift_free = df\<rparr>"

definition ActionModelLQR_full ::
  "(MatrixXs \<Rightarrow> MatrixXs \<Rightarrow> bool) \<Rightarrow> (MatrixXs \<Rightarrow> ComputationInfo) \<Rightarrow>
   MatrixXs \<Rightarrow> MatrixXs \<Rightarrow> MatrixXs \<Rightarrow> MatrixXs \<Rightarrow> MatrixXs \<Rightarrow> VectorXs \<Rightarrow> VectorXs \<Rightarrow> VectorXs \<Rightarrow>
   ActionModelLQR outcome" where
  "ActionModelLQR_full isApprox llt_info A B Q R N f q r =
     set_LQR isApprox llt_info (empty_model (cols A) (cols B) False) A B Q R N f q r"

definition ActionModelLQR_drift_free ::
  "(MatrixXs \<Rightarrow> MatrixXs \<Rightarrow> bool) \<Rightarrow> (MatrixXs \<Rightarrow> ComputationInfo) \<Rightarrow>
   MatrixXs \<Rightarrow> MatrixXs \<Rightarrow> MatrixXs \<Rightarrow> MatrixXs \<Rightarrow> MatrixXs \<Rightarrow> ActionModelLQR outcome" where
  "ActionModelLQR_drift_free isApprox llt_info A B Q R N =
     (let n = cols A;
          m = empty_model n (cols B) True;
          f = VZero n;
          q = VZero n;
          r = VZero (lqr_nu m)
      in set_LQR isApprox llt_info m A B Q R N f q r)"

text \<open>The shapes of a model: \<open>A\<close> is \<open>nx \<times> nx\<close>, \<open>B\<close> is \<open>nx \<times> nu\<close>, \<open>Q\<close> is \<open>nx \<times> nx\<close>, \<open>R\<close> is
  \<open>nu \<times> nu\<close>, \<open>N\<close> is \<open>nx \<times> nu\<close>, \<open>f\<close> and \<open>q\<close> have length \<open>nx\<close> and \<open>r\<close> has length \<open>nu\<close>.\<close>

definition model_shapes :: "ActionModelLQR \<Rightarrow> bool" where
  "model_shapes m =
     (rows (lqr_A m) = lqr_nx m \<and> cols (lqr_A m) = lqr_nx m \<and>
      rows (lqr_B m) = lqr_nx m \<and> cols (lqr_B m) = lqr_nu m \<and>
      rows (lqr_Q m) = lqr_nx m \<and> cols (lqr_Q m) = lqr_nx m \<and>
      rows (lqr_R m) = lqr_nu m \<and> cols (lqr_R m) = lqr_nu m \<and>
      rows (lqr_N m) = lqr_nx m \<and> cols (lqr_N m) = lqr_nu m \<and>
      length (lqr_f m) = lqr_nx m \<and> length (lqr_q m) = lqr_nx m \<and>
      length (lqr_r m) = lqr_nu m)"

text \<open>The model, the data and the arguments of the examples.\<close>

definition example_lqr :: ActionModelLQR where
  "example_lqr =
     \<lparr>lqr_nx = 2, lqr_nu = 1, lqr_A = Identity 2 2, lqr_B = of_rows 2 1 [[0], [1]],
      lqr_Q = Identity 2 2, lqr_R = of_rows 1 1 [[1]], lqr_N = Zero 2 1, lqr_f = VZero 2,
      lqr_q = VZero 2, lqr_r = VZero 1, lqr_H = Zero 0 0, drift_free = False\<rparr>"

definition empty_data :: ActionDataLQR where
  "empty_data =
     \<lparr>xnext = [], cost = 0, Fx = Zero 0 0, Fu = Zero 0 0, Lx = [], Lu = [], Lxx = Zero 0 0,
      Luu = Zero 0 0, Lxu = Zero 0 0, Q_x_tmp = [], R_u_tmp = []\<rparr>"

section \<open>Facts about vectors and matrices\<close>

lemma sum_list_upt_lessThan: "(\<Sum>j\<leftarrow>[0..<n]. f j) = (\<Sum>j<n. f j)"
  by (simp add: interv_sum_list_conv_sum_set_nat atLeast0LessThan)

lemma length_mat_vec: "length (mat_vec M x) = rows M"
  by (simp add: mat_vec_def)

lemma nth_mat_vec: "i < rows M \<Longrightarrow> mat_vec M x ! i = (\<Sum>j<cols M. coeff M i j * x ! j)"
  by (simp add: mat_vec_def sum_list_upt_lessThan)

lemma dot_sum: "dot x y = (\<Sum>i<length x. x ! i * y ! i)"
  by (simp add: dot_def sum_list_upt_lessThan)

lemma length_vec_add: "length (vec_add x y) = min (length x) (length y)"
  by (simp add: vec_add_def)

lemma nth_vec_add: "i < length x \<Longrightarrow> i < length y \<Longrightarrow> vec_add x y ! i = x ! i + y ! i"
  by (simp add: vec_add_def)

lemma dot_mat_vec:
  "length x = n \<Longrightarrow> rows M = n \<Longrightarrow> cols M = k \<Longrightarrow>
   dot x (mat_vec M y) = (\<Sum>i<n. x ! i * (\<Sum>j<k. coeff M i j * y ! j))"
  by (simp add: dot_sum nth_mat_vec)

lemma dims_mat_transpose [simp]:
  "rows (mat_transpose M) = cols M" "cols (mat_transpose M) = rows M"
  by (simp_all add: mat_transpose_def)

lemma dims_block_upd [simp]:
  "rows (block_upd g out r0 c0 nr nc E) = rows out"
  "cols (block_upd g out r0 c0 nr nc E) = cols out"
  by (simp_all add: block_upd_def)

lemma mat_transpose_block_upd:
  "mat_transpose (block_upd g out r0 c0 nr nc E) =
   block_upd g (mat_transpose out) c0 r0 nc nr (mat_transpose E)"
  by (auto simp: mat_transpose_def block_upd_def fun_eq_iff)

lemma mat_transpose_mat_scale: "mat_transpose (mat_scale a M) = mat_scale a (mat_transpose M)"
  by (simp add: mat_transpose_def mat_scale_def)

lemma dims_cols_upd [simp]:
  "rows (leftCols_upd g out n E) = rows out" "cols (leftCols_upd g out n E) = cols out"
  "rows (middleCols_upd g out s n E) = rows out" "cols (middleCols_upd g out s n E) = cols out"
  "rows (rightCols_upd g out n E) = rows out" "cols (rightCols_upd g out n E) = cols out"
  by (simp_all add: leftCols_upd_def middleCols_upd_def rightCols_upd_def)

lemma mat_transpose_cols_upd:
  "mat_transpose (leftCols_upd g out n E) = topRows_upd g (mat_transpose out) n (mat_transpose E)"
  "mat_transpose (middleCols_upd g out s n E) =
     middleRows_upd g (mat_transpose out) s n (mat_transpose E)"
  "mat_transpose (rightCols_upd g out n E) =
     bottomRows_upd g (mat_transpose out) n (mat_transpose E)"
  by (simp_all add: leftCols_upd_def topRows_upd_def middleCols_upd_def middleRows_upd_def
      rightCols_upd_def bottomRows_upd_def mat_transpose_block_upd)

lemma dims_cols_diagonal_fill:
  "rows (cols_diagonal_fill out c0 n v) = rows out"
  "cols (cols_diagonal_fill out c0 n v) = cols out"
  by (simp_all add: cols_diagonal_fill_def)

lemma thirds_of_replicated:
  "length w = n \<Longrightarrow> head (w @ w @ w) n = w"
  "length w = n \<Longrightarrow> segment (w @ w @ w) n n = w"
  "length w = n \<Longrightarrow> tail (w @ w @ w) n = w"
  by (simp_all add: head_def segment_def tail_def)

lemma combination_of_equal_nodes:
  "a + b + c = 1 \<Longrightarrow> vec_add (vec_add (vec_scale a w) (vec_scale b w)) (vec_scale c w) = w"
proof (induction w)
  case Nil
  then show ?case by (simp add: vec_add_def vec_scale_def)
next
  case (Cons x w)
  have "a * x + b * x + c * x = (a + b + c) * x"
    by (simp add: algebra_simps)
  with Cons show ?case
    by (simp add: vec_add_def vec_scale_def)
qed

lemma dims_rows_upd [simp]:
  "rows (topRows_upd g out n E) = rows out" "cols (topRows_upd g out n E) = cols out"
  "rows (middleRows_upd g out s n E) = rows out" "cols (middleRows_upd g out s n E) = cols out"
  "rows (bottomRows_upd g out n E) = rows out" "cols (bottomRows_upd g out n E) = cols out"
  by (simp_all add: topRows_upd_def middleRows_upd_def bottomRows_upd_def block_upd_def)

lemma mod_in_thirds:
  fixes j n :: nat
  shows "j < n \<Longrightarrow> j mod n = j"
    and "n \<le> j \<Longrightarrow> j < 2 * n \<Longrightarrow> j mod n = j - n"
    and "2 * n \<le> j \<Longrightarrow> j < 3 * n \<Longrightarrow> j mod n = j - 2 * n"
proof -
  show "j < n \<Longrightarrow> j mod n = j" by simp
next
  assume a: "n \<le> j" "j < 2 * n"
  then have l: "j - n < n" by linarith
  have "j mod n = (j - n + n) mod n" using a by simp
  also have "\<dots> = j - n" using l by (simp del: add_diff_assoc2)
  finally show "j mod n = j - n" .
next
  assume a: "2 * n \<le> j" "j < 3 * n"
  then have l: "j - 2 * n < n" by linarith
  have "j mod n = (j - 2 * n + 2 * n) mod n" using a by simp
  also have "\<dots> = j - 2 * n" using l by (simp del: add_diff_assoc2)
  finally show "j mod n = j - 2 * n" .
qed

lemma row_times_block_row:
  assumes "j < 3 * n"
  shows "(\<Sum>k<n. a k * (if j = k then c0 else if j = n + k then c1
                          else if j = 2 * n + k then c2 else 0)) =
         third n j c0 c1 c2 * a (j mod n)"
proof -
  consider "j < n" | "n \<le> j" "j < 2 * n" | "2 * n \<le> j" by linarith
  then show ?thesis
  proof cases
    case 1
    then have "(\<Sum>k<n. a k * (if j = k then c0 else if j = n + k then c1
                          else if j = 2 * n + k then c2 else 0)) =
        (\<Sum>k<n. if k = j then a j * c0 else 0)"
      by (intro sum.cong) auto
    with 1 show ?thesis by (simp add: third_def)
  next
    case 2
    then have l: "j - n < n" by linarith
    have "j mod n = (j - n + n) mod n" using 2 by simp
    also have "\<dots> = j - n" using l by (simp del: add_diff_assoc2)
    finally have m: "j mod n = j - n" .
    have "(\<Sum>k<n. a k * (if j = k then c0 else if j = n + k then c1
                          else if j = 2 * n + k then c2 else 0)) =
        (\<Sum>k<n. if k = j - n then a (j - n) * c1 else 0)"
      using 2 by (intro sum.cong) auto
    with 2 l m show ?thesis by (simp add: third_def)
  next
    case 3
    with assms have l: "j - 2 * n < n" by linarith
    have "j mod n = (j - 2 * n + 2 * n) mod n" using 3 by simp
    also have "\<dots> = j - 2 * n" using l by (simp del: add_diff_assoc2)
    finally have m: "j mod n = j - 2 * n" .
    have "(\<Sum>k<n. a k * (if j = k then c0 else if j = n + k then c1
                          else if j = 2 * n + k then c2 else 0)) =
        (\<Sum>k<n. if k = j - 2 * n then a (j - 2 * n) * c2 else 0)"
      using 3 by (intro sum.cong) auto
    with 3 l m show ?thesis by (simp add: third_def)
  qed
qed

lemma coeff_three_cols:
  assumes "cols out = 3 * n" "i < rows out" "j < 3 * n"
  shows "coeff (rightCols_upd g (middleCols_upd g (leftCols_upd g out n (mat_scale c0 A)) n n
                  (mat_scale c1 A)) n (mat_scale c2 A)) i j =
         g (coeff out i j) (third n j c0 c1 c2 * coeff A i (j mod n))"
proof -
  consider "j < n" | "n \<le> j" "j < 2 * n" | "2 * n \<le> j" by linarith
  then show ?thesis
  proof cases
    case 1
    with assms show ?thesis
      by (simp add: leftCols_upd_def middleCols_upd_def rightCols_upd_def block_upd_def
          mat_scale_def third_def)
  next
    case 2
    with assms mod_in_thirds(2) [of n j] show ?thesis
      by (simp add: leftCols_upd_def middleCols_upd_def rightCols_upd_def block_upd_def
          mat_scale_def third_def)
  next
    case 3
    with assms mod_in_thirds(3) [of n j] show ?thesis
      by (simp add: leftCols_upd_def middleCols_upd_def rightCols_upd_def block_upd_def
          mat_scale_def third_def)
  qed
qed


lemma coeff_mat_mul_block_row:
  assumes "cols A = n" "j < 3 * n"
  shows "coeff (mat_mul A (block_row n c0 c1 c2)) i j = third n j c0 c1 c2 * coeff A i (j mod n)"
  using assms row_times_block_row [of j n "coeff A i" c0 c1 c2]
  by (simp add: mat_mul_def block_row_def sum_list_upt_lessThan)

lemma coeff_block_row_transpose_mat_mul:
  assumes "cols A = n" "j < 3 * n"
  shows "coeff (mat_mul (mat_transpose (block_row n c0 c1 c2)) (mat_transpose A)) j i =
     third n j c0 c1 c2 * coeff A i (j mod n)"
proof -
  have "(\<Sum>k<n. (if j = k then c0 else if j = n + k then c1 else if j = 2 * n + k then c2 else 0) *
            coeff A i k) =
        (\<Sum>k<n. coeff A i k * (if j = k then c0 else if j = n + k then c1
                                 else if j = 2 * n + k then c2 else 0))"
    by (intro sum.cong) (simp_all add: mult.commute)
  with assms row_times_block_row [of j n "coeff A i" c0 c1 c2] show ?thesis
    by (simp add: mat_mul_def block_row_def mat_transpose_def sum_list_upt_lessThan)
qed

section \<open>Facts about rounding\<close>

lemma binade_scan_eq:
  "p = 2 powi k0 \<Longrightarrow> k0 \<le> k \<Longrightarrow> k \<le> k0 + int n \<Longrightarrow> k = k0 \<or> 2 powi k \<le> x \<Longrightarrow>
   x < 2 powi (k + 1) \<Longrightarrow> binade_scan n k0 p x = k"
proof (induction n arbitrary: k0 p)
  case 0
  then show ?case by simp
next
  case (Suc n)
  have p2: "2 * p = 2 powi (k0 + 1)"
    using Suc.prems(1) by (simp add: power_int_add)
  show ?case
  proof (cases "x < 2 * p")
    case True
    have "k = k0"
    proof (rule ccontr)
      assume "k \<noteq> k0"
      with Suc.prems have "k0 + 1 \<le> k" "2 powi k \<le> x" by auto
      then have "(2::real) powi (k0 + 1) \<le> 2 powi k"
        by (intro power_int_increasing) auto
      with \<open>2 powi k \<le> x\<close> True p2 show False by simp
    qed
    with True show ?thesis by simp
  next
    case False
    then have "2 powi (k0 + 1) \<le> x" using p2 by simp
    with Suc.prems(5) have "(2::real) powi (k0 + 1) < 2 powi (k + 1)" by simp
    have "k0 + 1 < k + 1"
    proof (rule ccontr)
      assume "\<not> k0 + 1 < k + 1"
      then have "(2::real) powi (k + 1) \<le> 2 powi (k0 + 1)"
        by (intro power_int_increasing) auto
      with \<open>(2::real) powi (k0 + 1) < 2 powi (k + 1)\<close> show False by simp
    qed
    then have "k0 + 1 \<le> k" "k \<noteq> k0" by auto
    with Suc.prems p2 have "binade_scan n (k0 + 1) (2 * p) x = k"
      by (intro Suc.IH) auto
    with False show ?thesis by simp
  qed
qed

lemma binade_eq:
  assumes "- 1022 \<le> k" "k \<le> 1023" "k = - 1022 \<or> 2 powi k \<le> \<bar>x\<bar>" "\<bar>x\<bar> < 2 powi (k + 1)"
  shows "binade x = k"
  unfolding binade_def using assms by (intro binade_scan_eq) auto

lemma rd_double_eq:
  assumes "- 1022 \<le> k" "k \<le> 1023" "k = - 1022 \<or> 2 powi k \<le> \<bar>x\<bar>" "\<bar>x\<bar> < 2 powi (k + 1)"
  shows "rd_double x = of_int (round_even (x / 2 powi (k - 52))) * 2 powi (k - 52)"
  by (simp add: rd_double_def binade_eq [OF assms])

lemma rd_double_small_integers:
  "rd_double 0 = 0" "rd_double 1 = 1" "rd_double 2 = 2" "rd_double (- 1) = - 1"
  "rd_double (- 2) = - 2"
  by (simp_all add: rd_double_eq [where k = "- 1022"] rd_double_eq [where k = 0]
      rd_double_eq [where k = 1] round_even_def power_int_minus)

lemma rd_double_5_7: "rd_double 5 = 5" "rd_double 7 = 7"
  by (simp_all add: rd_double_eq [where k = 2] round_even_def power_int_minus)

lemma binade_scan_le:
  "p = 2 powi k0 \<Longrightarrow> k0 \<le> K \<Longrightarrow> x < 2 powi (K + 1) \<Longrightarrow> binade_scan n k0 p x \<le> K"
proof (induction n arbitrary: k0 p)
  case 0
  then show ?case by simp
next
  case (Suc n)
  have p2: "2 * p = 2 powi (k0 + 1)"
    using Suc.prems(1) by (simp add: power_int_add)
  show ?case
  proof (cases "x < 2 * p")
    case True
    with Suc.prems show ?thesis by simp
  next
    case False
    then have "(2::real) powi (k0 + 1) < 2 powi (K + 1)"
      using p2 Suc.prems(3) by simp
    have "k0 + 1 < K + 1"
    proof (rule ccontr)
      assume "\<not> k0 + 1 < K + 1"
      then have "(2::real) powi (K + 1) \<le> 2 powi (k0 + 1)"
        by (intro power_int_increasing) auto
      with \<open>(2::real) powi (k0 + 1) < 2 powi (K + 1)\<close> show False by simp
    qed
    then have "k0 + 1 \<le> K" by simp
    with Suc.prems p2 have "binade_scan n (k0 + 1) (2 * p) x \<le> K"
      by (intro Suc.IH) auto
    with False show ?thesis by simp
  qed
qed

lemma binade_le: "- 1022 \<le> K \<Longrightarrow> \<bar>x\<bar> < 2 powi (K + 1) \<Longrightarrow> binade x \<le> K"
  unfolding binade_def by (intro binade_scan_le) auto

lemma round_even_error: "\<bar>of_int (round_even y) - y\<bar> \<le> 1 / 2"
proof -
  have "of_int \<lfloor>y\<rfloor> \<le> y" "y < of_int \<lfloor>y\<rfloor> + 1"
    by linarith+
  then show ?thesis
    by (auto simp: round_even_def Let_def abs_le_iff)
qed

lemma rd_double_error:
  assumes "- 1022 \<le> K" "\<bar>x\<bar> < 2 powi (K + 1)"
  shows "\<bar>rd_double x - x\<bar> \<le> 2 powi (K - 53)"
proof -
  define e where "e = binade x - 52"
  define s :: real where "s = 2 powi e"
  have s: "0 < s" by (simp add: s_def)
  have "e - 1 \<le> K - 53"
    using binade_le [OF assms] by (simp add: e_def)
  then have le: "(2::real) powi (e - 1) \<le> 2 powi (K - 53)"
    by (intro power_int_increasing) auto
  have half: "s / 2 = 2 powi (e - 1)"
    by (simp add: s_def power_int_diff)
  have "rd_double x - x = (of_int (round_even (x / s)) - x / s) * s"
    using s by (simp add: rd_double_def e_def s_def field_simps)
  then have "\<bar>rd_double x - x\<bar> = \<bar>of_int (round_even (x / s)) - x / s\<bar> * s"
    using s by (simp add: abs_mult)
  also have "\<dots> \<le> 1 / 2 * s"
    using s round_even_error [of "x / s"] by (intro mult_right_mono) auto
  finally show ?thesis
    using half le by simp
qed

lemma rd_double_error_8: "\<bar>x\<bar> \<le> 8 \<Longrightarrow> \<bar>rd_double x - x\<bar> \<le> 1 / 2 ^ 50"
  using rd_double_error [of 3 x] by (simp add: power_int_minus)

lemma rd_double_error_64: "\<bar>x\<bar> \<le> 64 \<Longrightarrow> \<bar>rd_double x - x\<bar> \<le> 1 / 2 ^ 47"
  using rd_double_error [of 6 x] by (simp add: power_int_minus)

lemma rounded_combination_error:
  fixes rd :: "real \<Rightarrow> real"
  assumes H: "\<forall>y. \<bar>y\<bar> \<le> 8 * W \<longrightarrow> \<bar>rd y - y\<bar> \<le> \<epsilon>"
    and eps: "0 \<le> \<epsilon>" "\<epsilon> \<le> 1 / 100" and W: "1 \<le> W" and x: "\<bar>x\<bar> \<le> W"
    and c: "\<bar>c2 - b2\<bar> \<le> 4 * \<epsilon>" "\<bar>c1 - b1\<bar> \<le> 11 * \<epsilon>" "\<bar>c0 - b0\<bar> \<le> 7 * \<epsilon>"
    and b: "\<bar>b2\<bar> \<le> 1" "\<bar>b1\<bar> \<le> 1" "\<bar>b0\<bar> \<le> 1" "b0 + b1 + b2 = 1"
  shows "\<bar>rd (rd (rd (c2 * x) + rd (c1 * x)) + rd (c0 * x)) - x\<bar> \<le> (22 * W + 5) * \<epsilon>"
proof -
  have r: "rd y - y \<le> \<epsilon> \<and> - (rd y - y) \<le> \<epsilon>" if "y \<le> 8 * W" "- y \<le> 8 * W" for y
    using H [rule_format, of y] that by (simp add: abs_le_iff)
  define EW where "EW = \<epsilon> * W"
  have EW: "0 \<le> EW" "EW \<le> W / 100" "\<epsilon> \<le> EW"
    using eps W mult_right_mono [of \<epsilon> "1 / 100" W] mult_left_mono [of 1 W \<epsilon>]
    by (simp_all add: EW_def)
  have prod: "c * x - b * x \<le> k * EW \<and> - (c * x - b * x) \<le> k * EW \<and> b * x \<le> W \<and> - (b * x) \<le> W"
    if "\<bar>c - b\<bar> \<le> k * \<epsilon>" "\<bar>b\<bar> \<le> 1" for c b k
  proof -
    have "\<bar>c * x - b * x\<bar> = \<bar>c - b\<bar> * \<bar>x\<bar>"
      by (simp add: abs_mult left_diff_distrib [symmetric])
    also have "\<dots> \<le> (k * \<epsilon>) * W"
      using that x by (intro mult_mono) auto
    finally have "\<bar>c * x - b * x\<bar> \<le> k * EW"
      by (simp add: EW_def)
    moreover have "\<bar>b * x\<bar> \<le> 1 * W"
      unfolding abs_mult using that x by (intro mult_mono) auto
    ultimately show ?thesis by (simp add: abs_le_iff)
  qed
  note p2 = prod [OF c(1) b(1)] and p1 = prod [OF c(2) b(2)] and p0 = prod [OF c(3) b(3)]
  define m2 where "m2 = rd (c2 * x)"
  define m1 where "m1 = rd (c1 * x)"
  define m0 where "m0 = rd (c0 * x)"
  define s1 where "s1 = rd (m2 + m1)"
  have e2: "m2 - c2 * x \<le> \<epsilon> \<and> - (m2 - c2 * x) \<le> \<epsilon>"
    unfolding m2_def using p2 EW W by (elim conjE, intro r; linarith)
  have e1: "m1 - c1 * x \<le> \<epsilon> \<and> - (m1 - c1 * x) \<le> \<epsilon>"
    unfolding m1_def using p1 EW W by (elim conjE, intro r; linarith)
  have e0: "m0 - c0 * x \<le> \<epsilon> \<and> - (m0 - c0 * x) \<le> \<epsilon>"
    unfolding m0_def using p0 EW W by (elim conjE, intro r; linarith)
  have es: "s1 - (m2 + m1) \<le> \<epsilon> \<and> - (s1 - (m2 + m1)) \<le> \<epsilon>"
    unfolding s1_def using p2 p1 e2 e1 EW W eps by (elim conjE, intro r; linarith)
  have ew: "rd (s1 + m0) - (s1 + m0) \<le> \<epsilon> \<and> - (rd (s1 + m0) - (s1 + m0)) \<le> \<epsilon>"
    using p2 p1 p0 e2 e1 e0 es EW W eps by (elim conjE, intro r; linarith)
  have sum: "b2 * x + b1 * x + b0 * x = x"
    using b(4) by (simp add: distrib_right [symmetric] add.commute add.left_commute)
  have "\<bar>rd (s1 + m0) - x\<bar> \<le> 22 * EW + 5 * \<epsilon>"
    using p2 p1 p0 e2 e1 e0 es ew sum unfolding abs_le_iff
    by (elim conjE, intro conjI; linarith)
  then show ?thesis
    by (simp add: EW_def s1_def m2_def m1_def m0_def algebra_simps)
qed

section \<open>The action model: what the calls write\<close>

lemma LQR_calc_Ok:
  "length x = lqr_nx m \<Longrightarrow> length u = lqr_nu m \<Longrightarrow>
   LQR_calc m d x u =
     Ok (d\<lparr>xnext := vec_add (vec_add (mat_vec (lqr_A m) x) (mat_vec (lqr_B m) u)) (lqr_f m),
           R_u_tmp := mat_vec (lqr_R m) u,
           Q_x_tmp := mat_vec (lqr_N m) u,
           cost := 0.5 * dot x (mat_vec (lqr_Q m) x) + 0.5 * dot u (mat_vec (lqr_R m) u) +
                   dot x (mat_vec (lqr_N m) u) + dot (lqr_q m) x + dot (lqr_r m) u\<rparr>)"
  by (simp add: LQR_calc_def Let_def)

lemma LQR_calc_general:
  assumes "model_shapes m" "length x = lqr_nx m" "length u = lqr_nu m"
  shows "\<exists>d'. LQR_calc m d x u = Ok d' \<and> length (xnext d') = lqr_nx m \<and>
      (\<forall>i<lqr_nx m. xnext d' ! i =
          (\<Sum>j<lqr_nx m. coeff (lqr_A m) i j * x ! j) +
          (\<Sum>j<lqr_nu m. coeff (lqr_B m) i j * u ! j) + lqr_f m ! i) \<and>
      cost d' =
        1 / 2 * (\<Sum>i<lqr_nx m. x ! i * (\<Sum>j<lqr_nx m. coeff (lqr_Q m) i j * x ! j)) +
        1 / 2 * (\<Sum>i<lqr_nu m. u ! i * (\<Sum>j<lqr_nu m. coeff (lqr_R m) i j * u ! j)) +
        (\<Sum>i<lqr_nx m. x ! i * (\<Sum>j<lqr_nu m. coeff (lqr_N m) i j * u ! j)) +
        (\<Sum>i<lqr_nx m. lqr_q m ! i * x ! i) + (\<Sum>i<lqr_nu m. lqr_r m ! i * u ! i)"
  using assms
  by (simp add: LQR_calc_Ok model_shapes_def length_vec_add length_mat_vec nth_vec_add
      nth_mat_vec dot_mat_vec [of x "lqr_nx m"] dot_mat_vec [of u "lqr_nu m"]
      dot_sum [of "lqr_q m"] dot_sum [of "lqr_r m"])

lemma LQR_calc_example:
  "\<exists>d'. LQR_calc example_lqr empty_data [1, 0] [1] = Ok d' \<and> xnext d' = [1, 1] \<and> cost d' = 1"
  by (simp add: LQR_calc_Ok example_lqr_def mat_vec_def dot_def vec_add_def Identity_def
      of_rows_def Zero_def VZero_def upt_rec eval_nat_numeral)

lemma model_shapes_example: "model_shapes example_lqr"
  by (simp add: model_shapes_def example_lqr_def Identity_def of_rows_def Zero_def VZero_def)

text \<open>
  C1. For a model with the shapes of an LQR model, a state \<open>x\<close> of length \<open>nx\<close> and a control
  \<open>u\<close> of length \<open>nu\<close>, \<open>calc(data, x, u)\<close> returns normally and has written
  \<open>xnext = A x + B u + f\<close> and
  \<open>cost = 1/2 x\<^sup>T Q x + 1/2 u\<^sup>T R u + x\<^sup>T N u + q\<^sup>T x + r\<^sup>T u\<close> into the data. For \<open>nx = 2\<close>,
  \<open>nu = 1\<close>, \<open>A = I\<close>, \<open>B = [[0], [1]]\<close>, \<open>Q = I\<close>, \<open>R = [[1]]\<close>, \<open>N = 0\<close>, \<open>f = q = r = 0\<close>,
  \<open>x = [1, 0]\<close> and \<open>u = [1]\<close> it writes \<open>xnext = [1, 1]\<close> and \<open>cost = 1\<close>.
\<close>

theorem LQR_calc_writes_dynamics_and_cost:
  "(model_shapes m \<and> length x = lqr_nx m \<and> length u = lqr_nu m \<longrightarrow>
      (\<exists>d'. LQR_calc m d x u = Ok d' \<and> length (xnext d') = lqr_nx m \<and>
        (\<forall>i<lqr_nx m. xnext d' ! i =
            (\<Sum>j<lqr_nx m. coeff (lqr_A m) i j * x ! j) +
            (\<Sum>j<lqr_nu m. coeff (lqr_B m) i j * u ! j) + lqr_f m ! i) \<and>
        cost d' =
          1 / 2 * (\<Sum>i<lqr_nx m. x ! i * (\<Sum>j<lqr_nx m. coeff (lqr_Q m) i j * x ! j)) +
          1 / 2 * (\<Sum>i<lqr_nu m. u ! i * (\<Sum>j<lqr_nu m. coeff (lqr_R m) i j * u ! j)) +
          (\<Sum>i<lqr_nx m. x ! i * (\<Sum>j<lqr_nu m. coeff (lqr_N m) i j * u ! j)) +
          (\<Sum>i<lqr_nx m. lqr_q m ! i * x ! i) + (\<Sum>i<lqr_nu m. lqr_r m ! i * u ! i))) \<and>
   (\<exists>d'. LQR_calc example_lqr empty_data [1, 0] [1] = Ok d' \<and> xnext d' = [1, 1] \<and> cost d' = 1)"
  using LQR_calc_general [of m x u d] LQR_calc_example by blast

theorem LQR_calc_writes_dynamics_and_cost_witness:
  "model_shapes example_lqr \<and> length [1, 0 :: real] = lqr_nx example_lqr \<and>
   length [1 :: real] = lqr_nu example_lqr \<and>
   (\<exists>d'. LQR_calc example_lqr empty_data [1, 0] [1] = Ok d' \<and> length (xnext d') = 2 \<and>
      xnext d' = [1, 1] \<and> cost d' = 1)"
proof -
  have h: "model_shapes example_lqr \<and> length [1, 0 :: real] = lqr_nx example_lqr \<and>
      length [1 :: real] = lqr_nu example_lqr"
    by (simp add: model_shapes_example) (simp add: example_lqr_def)
  have n: "lqr_nx example_lqr = 2"
    by (simp add: example_lqr_def)
  from LQR_calc_writes_dynamics_and_cost [of example_lqr "[1, 0]" "[1]" empty_data] h
  obtain d' e' where "LQR_calc example_lqr empty_data [1, 0] [1] = Ok d'"
    "length (xnext d') = lqr_nx example_lqr"
    "LQR_calc example_lqr empty_data [1, 0] [1] = Ok e'" "xnext e' = [1, 1]" "cost e' = 1"
    by blast
  then have "LQR_calc example_lqr empty_data [1, 0] [1] = Ok d' \<and> length (xnext d') = 2 \<and>
      xnext d' = [1, 1] \<and> cost d' = 1"
    using n by simp
  with h show ?thesis by blast
qed

text \<open>
  C2. For a model with the shapes of an LQR model, \<open>x\<close> of length \<open>nx\<close> and \<open>u\<close> of length
  \<open>nu\<close>, \<open>calcDiff(data, x, u)\<close> returns normally and has written \<open>Fx = A\<close>, \<open>Fu = B\<close>,
  \<open>Lxx = Q\<close>, \<open>Luu = R\<close>, \<open>Lxu = N\<close>, \<open>Lx = q + Q x + N u\<close> and \<open>Lu = r + N\<^sup>T x + R u\<close> into the
  data.
\<close>

theorem LQR_calcDiff_writes_derivatives:
  assumes "model_shapes m" "length x = lqr_nx m" "length u = lqr_nu m"
  shows "\<exists>d'. LQR_calcDiff m d x u = Ok d' \<and>
      Fx d' = lqr_A m \<and> Fu d' = lqr_B m \<and> Lxx d' = lqr_Q m \<and> Luu d' = lqr_R m \<and>
      Lxu d' = lqr_N m \<and>
      length (Lx d') = lqr_nx m \<and>
      (\<forall>i<lqr_nx m. Lx d' ! i =
          lqr_q m ! i + (\<Sum>j<lqr_nx m. coeff (lqr_Q m) i j * x ! j) +
          (\<Sum>j<lqr_nu m. coeff (lqr_N m) i j * u ! j)) \<and>
      length (Lu d') = lqr_nu m \<and>
      (\<forall>i<lqr_nu m. Lu d' ! i =
          lqr_r m ! i + (\<Sum>j<lqr_nx m. coeff (lqr_N m) j i * x ! j) +
          (\<Sum>j<lqr_nu m. coeff (lqr_R m) i j * u ! j))"
  using assms
  by (simp add: LQR_calcDiff_def Let_def model_shapes_def length_vec_add length_mat_vec
      nth_vec_add nth_mat_vec mat_transpose_def)

theorem LQR_calcDiff_writes_derivatives_witness:
  "\<exists>d'. LQR_calcDiff example_lqr empty_data [1, 0] [1] = Ok d' \<and>
      Fx d' = Identity 2 2 \<and> Fu d' = of_rows 2 1 [[0], [1]] \<and> Lxx d' = Identity 2 2 \<and>
      Luu d' = of_rows 1 1 [[1]] \<and> Lxu d' = Zero 2 1 \<and> length (Lx d') = 2 \<and> length (Lu d') = 1"
proof -
  have "length [1, 0 :: real] = lqr_nx example_lqr" "length [1 :: real] = lqr_nu example_lqr"
    by (simp_all add: example_lqr_def)
  from LQR_calcDiff_writes_derivatives [OF model_shapes_example this, of empty_data]
  show ?thesis
    by (simp add: example_lqr_def) blast
qed

text \<open>
  C7. For a model with the shapes of an LQR model and \<open>x\<close> of length \<open>nx\<close>, the terminal
  \<open>calc(data, x)\<close> returns normally and has written \<open>xnext = x\<close> and
  \<open>cost = 1/2 x\<^sup>T Q x + q\<^sup>T x\<close> into the data; for \<open>x\<close> of another length it throws the
  invalid-argument exception.
\<close>

theorem LQR_calc_terminal_writes_state_and_cost:
  "(model_shapes m \<and> length x = lqr_nx m \<longrightarrow>
      (\<exists>d'. LQR_calc_terminal m d x = Ok d' \<and> xnext d' = x \<and>
        cost d' =
          1 / 2 * (\<Sum>i<lqr_nx m. x ! i * (\<Sum>j<lqr_nx m. coeff (lqr_Q m) i j * x ! j)) +
          (\<Sum>i<lqr_nx m. lqr_q m ! i * x ! i))) \<and>
   (length y \<noteq> lqr_nx m \<longrightarrow>
      (\<exists>msg. LQR_calc_terminal m d y = Throw (InvalidArgument msg) d))"
  by (simp add: LQR_calc_terminal_def Let_def model_shapes_def dot_mat_vec [of x "lqr_nx m"]
      dot_sum [of "lqr_q m"])

theorem LQR_calc_terminal_writes_state_and_cost_witness:
  "(\<exists>d'. LQR_calc_terminal example_lqr empty_data [1, 0] = Ok d' \<and> xnext d' = [1, 0]) \<and>
   (\<exists>msg. LQR_calc_terminal example_lqr empty_data [1] = Throw (InvalidArgument msg) empty_data)"
proof -
  have "model_shapes example_lqr \<and> length [1, 0 :: real] = lqr_nx example_lqr"
    "length [1 :: real] \<noteq> lqr_nx example_lqr"
    by (simp_all add: model_shapes_example) (simp_all add: example_lqr_def)
  with LQR_calc_terminal_writes_state_and_cost [of example_lqr "[1, 0]" empty_data "[1]"]
  show ?thesis by blast
qed

section \<open>The action model: the setter\<close>

lemma set_LQR_Throw_keeps_accessors:
  assumes "set_LQR isApprox llt_info m A B Q R N f q r = Throw e m'"
  shows "lqr_A m' = lqr_A m \<and> lqr_B m' = lqr_B m \<and> lqr_Q m' = lqr_Q m \<and> lqr_R m' = lqr_R m \<and>
     lqr_N m' = lqr_N m \<and> lqr_f m' = lqr_f m \<and> lqr_q m' = lqr_q m \<and> lqr_r m' = lqr_r m \<and>
     lqr_nx m' = lqr_nx m \<and> lqr_nu m' = lqr_nu m \<and> drift_free m' = drift_free m"
  using assms by (auto simp: set_LQR_def Let_def split: if_splits)

lemma set_LQR_Throw_shape_keeps_model:
  assumes "rows A \<noteq> lqr_nx m \<or> rows B \<noteq> lqr_nx m \<or> rows Q \<noteq> lqr_nx m \<or> cols Q \<noteq> lqr_nx m \<or>
     rows R \<noteq> lqr_nu m \<or> cols R \<noteq> lqr_nu m \<or> rows N \<noteq> lqr_nx m \<or> cols N \<noteq> lqr_nu m \<or>
     length f \<noteq> lqr_nx m \<or> length q \<noteq> lqr_nx m \<or> length r \<noteq> lqr_nu m"
  shows "\<exists>msg. set_LQR isApprox llt_info m A B Q R N f q r = Throw (InvalidArgument msg) m"
  using assms by (auto simp: set_LQR_def Let_def)

lemma set_LQR_Throw_not_psd:
  assumes "rows A = lqr_nx m" "rows B = lqr_nx m" "rows Q = lqr_nx m" "cols Q = lqr_nx m"
    "rows R = lqr_nu m" "cols R = lqr_nu m" "rows N = lqr_nx m" "cols N = lqr_nu m"
    "length f = lqr_nx m" "length q = lqr_nx m" "length r = lqr_nu m"
    and "\<not> isApprox (assemble_H (lqr_nx m) (lqr_nu m) Q N R)
            (mat_transpose (assemble_H (lqr_nx m) (lqr_nu m) Q N R)) \<or>
         llt_info (assemble_H (lqr_nx m) (lqr_nu m) Q N R) = NumericalIssue"
  shows "\<exists>msg. set_LQR isApprox llt_info m A B Q R N f q r =
     Throw (InvalidArgument msg) (m\<lparr>lqr_H := assemble_H (lqr_nx m) (lqr_nu m) Q N R\<rparr>)"
  using assms by (auto simp: set_LQR_def Let_def)

text \<open>
  C3. The claim: \<open>set_LQR\<close>, called with an argument of a wrong shape or with \<open>Q\<close>, \<open>R\<close>, \<open>N\<close>
  whose block matrix is not symmetric positive semi-definite, throws the invalid-argument
  exception and leaves every field of the model as it was. The code checks the rows of
  \<open>A\<close> and of \<open>B\<close> only: on the model of \<open>ActionModelLQR(1, 1, true)\<close>, a call with the
  \<open>1 \<times> 2\<close> matrix \<open>A = [[1, 2]]\<close>, and all other arguments of the right shape with
  \<open>Q = R = [[1]]\<close> and \<open>N = [[0]]\<close>, returns normally once Eigen accepts the block matrix,
  and the model then holds the \<open>1 \<times> 2\<close> matrix as \<open>A\<close>.
\<close>

theorem set_LQR_accepts_nonsquare_A:
  "isApprox (assemble_H 1 1 (Identity 1 1) (Zero 1 1) (Identity 1 1))
     (mat_transpose (assemble_H 1 1 (Identity 1 1) (Zero 1 1) (Identity 1 1))) \<and>
   llt_info (assemble_H 1 1 (Identity 1 1) (Zero 1 1) (Identity 1 1)) = Success \<longrightarrow>
   cols (of_rows 1 2 [[1, 2]]) \<noteq> lqr_nx (ActionModelLQR_dims 1 1 True) \<and>
   set_LQR isApprox llt_info (ActionModelLQR_dims 1 1 True)
       (of_rows 1 2 [[1, 2]]) (Identity 1 1) (Identity 1 1) (Identity 1 1) (Zero 1 1) [0] [0] [0] =
     Ok ((ActionModelLQR_dims 1 1 True)
          \<lparr>lqr_H := assemble_H 1 1 (Identity 1 1) (Zero 1 1) (Identity 1 1),
           lqr_A := of_rows 1 2 [[1, 2]], lqr_B := Identity 1 1, lqr_f := [0],
           lqr_Q := Identity 1 1, lqr_R := Identity 1 1, lqr_N := Zero 1 1,
           lqr_q := [0], lqr_r := [0]\<rparr>)"
  by (simp add: set_LQR_def Let_def ActionModelLQR_dims_def of_rows_def Identity_def Zero_def)

theorem set_LQR_accepts_nonsquare_A_witness:
  "\<not> thrown (set_LQR (\<lambda>H H'. True) (\<lambda>H. Success) (ActionModelLQR_dims 1 1 True)
       (of_rows 1 2 [[1, 2]]) (Identity 1 1) (Identity 1 1) (Identity 1 1) (Zero 1 1) [0] [0] [0]) \<and>
   cols (lqr_A (state_of (set_LQR (\<lambda>H H'. True) (\<lambda>H. Success) (ActionModelLQR_dims 1 1 True)
       (of_rows 1 2 [[1, 2]]) (Identity 1 1) (Identity 1 1) (Identity 1 1) (Zero 1 1) [0] [0] [0]))) = 2"
  using set_LQR_accepts_nonsquare_A [of "\<lambda>H H'. True" "\<lambda>H. Success"]
  by (simp add: of_rows_def)

section \<open>The control parametrization: what the calls write\<close>

lemma calc_Ok:
  "length u = nu m \<Longrightarrow>
   PolyTwoRK4_calc m d t u =
     Ok (d\<lparr>tmp_t2 := t * t,
           d_c := (d_c d)(2 := 2 * (t * t) - t, 1 := - 2 * (2 * (t * t) - t) + 2 * t,
                          0 := 2 * (t * t) - t - 2 * t + 1),
           d_w := vec_add (vec_add (vec_scale (2 * (t * t) - t) (tail u (nw m)))
                                    (vec_scale (- 2 * (2 * (t * t) - t) + 2 * t)
                                       (segment u (nw m) (nw m))))
                           (vec_scale (2 * (t * t) - t - 2 * t + 1) (head u (nw m)))\<rparr>)"
  by (simp add: PolyTwoRK4_calc_def Let_def)

lemma calc_stores_basis:
  assumes "length u = nu m"
  obtains d1 where "PolyTwoRK4_calc m d t u = Ok d1"
    and "d_c d1 0 = basis_c0 t" "d_c d1 1 = basis_c1 t" "d_c d1 2 = basis_c2 t"
    and "dw_du d1 = dw_du d"
  using assms
  by (simp add: calc_Ok basis_c0_def basis_c1_def basis_c2_def power2_eq_square)

lemma calcDiff_Ok:
  "PolyTwoRK4_calcDiff m d t u =
     Ok (d\<lparr>dw_du := cols_diagonal_fill
            (cols_diagonal_fill (cols_diagonal_fill (dw_du d) 0 (nw m) (d_c d 0))
               (nw m) (nw m) (d_c d 1))
            (cols (dw_du d) - nw m) (nw m) (d_c d 2)\<rparr>)"
  by (simp add: PolyTwoRK4_calcDiff_def Let_def dims_cols_diagonal_fill)

lemma params_Ok:
  assumes "nu m = 3 * nw m" "length (d_u d) = nu m" "length w = nw m"
  shows "PolyTwoRK4_params m d t w = Ok (d\<lparr>d_u := w @ w @ w\<rparr>)"
  using assms
  by (simp add: PolyTwoRK4_params_def Let_def set_head_def set_segment_def set_tail_def)



lemma calc_rounded_Ok:
  assumes "length u = nu m"
    and "t2 = rd (t * t)" and "c2 = rd (rd (2 * t2) - t)"
    and "c1 = rd (rd (- 2 * c2) + rd (2 * t))" and "c0 = rd (rd (c2 - rd (2 * t)) + 1)"
  shows "PolyTwoRK4_calc_rounded rd m d t u =
     Ok (d\<lparr>tmp_t2 := t2, d_c := (d_c d)(2 := c2, 1 := c1, 0 := c0),
           d_w := vec_add_rd rd
                    (vec_add_rd rd (vec_scale_rd rd c2 (tail u (nw m)))
                       (vec_scale_rd rd c1 (segment u (nw m) (nw m))))
                    (vec_scale_rd rd c0 (head u (nw m)))\<rparr>)"
  using assms by (simp add: PolyTwoRK4_calc_rounded_def Let_def)

lemma calc_rounded_exact:
  "PolyTwoRK4_calc_rounded (\<lambda>x. x) m d t u = PolyTwoRK4_calc m d t u"
proof -
  have "vec_scale_rd (\<lambda>x. x) = vec_scale" "vec_add_rd (\<lambda>x. x) = vec_add"
    by (auto simp: vec_scale_rd_def vec_scale_def vec_add_rd_def vec_add_def fun_eq_iff)
  then show ?thesis
    by (simp add: PolyTwoRK4_calc_rounded_def PolyTwoRK4_calc_def)
qed

lemma calc_rounded_at_0:
  assumes "length u = nu m" "rd 0 = 0" "rd 1 = 1"
  shows "PolyTwoRK4_calc_rounded rd m d 0 u =
     Ok (d\<lparr>tmp_t2 := 0, d_c := (d_c d)(2 := 0, 1 := 0, 0 := 1),
           d_w := vec_add_rd rd
                    (vec_add_rd rd (vec_scale_rd rd 0 (tail u (nw m)))
                       (vec_scale_rd rd 0 (segment u (nw m) (nw m))))
                    (vec_scale_rd rd 1 (head u (nw m)))\<rparr>)"
  using assms by (intro calc_rounded_Ok) simp_all

lemma calc_rounded_at_1:
  assumes "length u = nu m" "rd 0 = 0" "rd 1 = 1" "rd 2 = 2" "rd (- 1) = - 1" "rd (- 2) = - 2"
  shows "PolyTwoRK4_calc_rounded rd m d 1 u =
     Ok (d\<lparr>tmp_t2 := 1, d_c := (d_c d)(2 := 1, 1 := 0, 0 := 0),
           d_w := vec_add_rd rd
                    (vec_add_rd rd (vec_scale_rd rd 1 (tail u (nw m)))
                       (vec_scale_rd rd 0 (segment u (nw m) (nw m))))
                    (vec_scale_rd rd 0 (head u (nw m)))\<rparr>)"
  using assms by (intro calc_rounded_Ok) simp_all

lemma calc_rounded_at_seven_tenths:
  assumes "length u = nu m"
  shows "PolyTwoRK4_calc_rounded rd_double m d (3152519739159347 / 2 ^ 52) u =
     Ok (d\<lparr>tmp_t2 := 8827055269646171 / 2 ^ 54,
           d_c := (d_c d)(2 := 2522015791327477 / 2 ^ 53, 1 := 3783023686991217 / 2 ^ 52,
                          0 := - 135107988821115 / 2 ^ 50),
           d_w := vec_add_rd rd_double
                    (vec_add_rd rd_double
                       (vec_scale_rd rd_double (2522015791327477 / 2 ^ 53) (tail u (nw m)))
                       (vec_scale_rd rd_double (3783023686991217 / 2 ^ 52)
                          (segment u (nw m) (nw m))))
                    (vec_scale_rd rd_double (- 135107988821115 / 2 ^ 50) (head u (nw m)))\<rparr>)"
proof -
  let ?t = "3152519739159347 / 2 ^ 52 :: real"
  have t2: "rd_double (?t * ?t) = 8827055269646171 / 2 ^ 54"
    by (simp add: rd_double_eq [where k = "- 2"] round_even_def power_int_minus)
  have a: "rd_double (2 * (8827055269646171 / 2 ^ 54)) = 8827055269646171 / 2 ^ 53"
    by (simp add: rd_double_eq [where k = "- 1"] round_even_def power_int_minus)
  have c2: "rd_double (8827055269646171 / 2 ^ 53 - ?t) = 2522015791327477 / 2 ^ 53"
    by (simp add: rd_double_eq [where k = "- 2"] round_even_def power_int_minus)
  have b: "rd_double (- 2 * (2522015791327477 / 2 ^ 53)) = - 2522015791327477 / 2 ^ 52"
    by (simp add: rd_double_eq [where k = "- 1"] round_even_def power_int_minus)
  have e: "rd_double (2 * ?t) = 3152519739159347 / 2 ^ 51"
    by (simp add: rd_double_eq [where k = 0] round_even_def power_int_minus)
  have c1: "rd_double (- 2522015791327477 / 2 ^ 52 + 3152519739159347 / 2 ^ 51) =
      3783023686991217 / 2 ^ 52"
    by (simp add: rd_double_eq [where k = "- 1"] round_even_def power_int_minus)
  have f: "rd_double (2522015791327477 / 2 ^ 53 - 3152519739159347 / 2 ^ 51) =
      - 1261007895663739 / 2 ^ 50"
    by (simp add: rd_double_eq [where k = 0] round_even_def power_int_minus)
  have c0: "rd_double (- 1261007895663739 / 2 ^ 50 + 1) = - 135107988821115 / 2 ^ 50"
    by (simp add: rd_double_eq [where k = "- 4"] round_even_def power_int_minus)
  show ?thesis
  proof (rule calc_rounded_Ok [OF assms])
    show "8827055269646171 / 2 ^ 54 = rd_double (?t * ?t)"
      by (simp only: t2)
    show "2522015791327477 / 2 ^ 53 = rd_double (rd_double (2 * (8827055269646171 / 2 ^ 54)) - ?t)"
      by (simp only: a c2)
    show "3783023686991217 / 2 ^ 52 =
        rd_double (rd_double (- 2 * (2522015791327477 / 2 ^ 53)) + rd_double (2 * ?t))"
      by (simp only: b e c1)
    show "- 135107988821115 / 2 ^ 50 =
        rd_double (rd_double (2522015791327477 / 2 ^ 53 - rd_double (2 * ?t)) + 1)"
      by (simp only: e f c0)
  qed
qed

lemma rounded_coefficients_error:
  fixes rd :: "real \<Rightarrow> real"
  assumes H: "\<forall>x. \<bar>x\<bar> \<le> 8 \<longrightarrow> \<bar>rd x - x\<bar> \<le> \<epsilon>"
    and eps: "0 \<le> \<epsilon>" "\<epsilon> \<le> 1 / 100" and t: "0 \<le> t" "t \<le> 1"
    and t2: "t2 = rd (t * t)" and c2: "c2 = rd (rd (2 * t2) - t)"
    and c1: "c1 = rd (rd (- 2 * c2) + rd (2 * t))"
    and c0: "c0 = rd (rd (c2 - rd (2 * t)) + 1)"
  shows "\<bar>c2 - basis_c2 t\<bar> \<le> 4 * \<epsilon>" "\<bar>c1 - basis_c1 t\<bar> \<le> 11 * \<epsilon>"
    "\<bar>c0 - basis_c0 t\<bar> \<le> 7 * \<epsilon>"
proof -
  have r: "\<bar>rd x - x\<bar> \<le> \<epsilon>" if "\<bar>x\<bar> \<le> 8" for x
    using H that by blast
  have tt: "0 \<le> t * t" "t * t \<le> 1"
    using t by (simp_all add: mult_le_one)
  have e1: "\<bar>t2 - t * t\<bar> \<le> \<epsilon>"
    unfolding t2 using tt by (intro r) simp
  define a where "a = rd (2 * t2)"
  have e2: "\<bar>a - 2 * t2\<bar> \<le> \<epsilon>"
    unfolding a_def using e1 tt eps by (intro r) linarith
  have e3: "\<bar>c2 - (a - t)\<bar> \<le> \<epsilon>"
    unfolding c2 a_def [symmetric] using e1 e2 tt eps t by (intro r) linarith
  have E2: "\<bar>c2 - (2 * (t * t) - t)\<bar> \<le> 4 * \<epsilon>"
    using e1 e2 e3 unfolding abs_le_iff by (elim conjE, intro conjI; linarith)
  define b where "b = rd (- 2 * c2)"
  define e where "e = rd (2 * t)"
  have e4: "\<bar>b - (- 2 * c2)\<bar> \<le> \<epsilon>"
    unfolding b_def using E2 tt eps t by (intro r) linarith
  have e5: "\<bar>e - 2 * t\<bar> \<le> \<epsilon>"
    unfolding e_def using t by (intro r) linarith
  have e6: "\<bar>c1 - (b + e)\<bar> \<le> \<epsilon>"
    unfolding c1 b_def [symmetric] e_def [symmetric] using e4 e5 E2 tt eps t by (intro r) linarith
  have d: "- 2 * (2 * (t * t) - t) = 2 * t - 4 * (t * t)"
    by (simp add: algebra_simps)
  have E1: "\<bar>c1 - (- 2 * (2 * (t * t) - t) + 2 * t)\<bar> \<le> 11 * \<epsilon>"
    using e4 e5 e6 E2 d unfolding abs_le_iff by (elim conjE, intro conjI; linarith)
  define f where "f = rd (c2 - e)"
  have e7: "\<bar>f - (c2 - e)\<bar> \<le> \<epsilon>"
    unfolding f_def using e5 E2 tt eps t by (intro r) linarith
  have e8: "\<bar>c0 - (f + 1)\<bar> \<le> \<epsilon>"
    unfolding c0 e_def [symmetric] f_def [symmetric] using e7 e5 E2 tt eps t by (intro r) linarith
  have E0: "\<bar>c0 - (2 * (t * t) - t - 2 * t + 1)\<bar> \<le> 7 * \<epsilon>"
    using e7 e8 e5 E2 unfolding abs_le_iff by (elim conjE, intro conjI; linarith)
  show "\<bar>c2 - basis_c2 t\<bar> \<le> 4 * \<epsilon>" "\<bar>c1 - basis_c1 t\<bar> \<le> 11 * \<epsilon>"
    "\<bar>c0 - basis_c0 t\<bar> \<le> 7 * \<epsilon>"
    using E2 E1 E0 by (simp_all add: basis_c0_def basis_c1_def basis_c2_def power2_eq_square)
qed

lemma basis_sum: "basis_c0 t + basis_c1 t + basis_c2 t = 1"
  by (simp add: basis_c0_def basis_c1_def basis_c2_def)

lemma basis_bounds:
  assumes "0 \<le> t" "t \<le> 1"
  shows "\<bar>basis_c2 t\<bar> \<le> 1" "\<bar>basis_c1 t\<bar> \<le> 1" "\<bar>basis_c0 t\<bar> \<le> 1"
proof -
  have tt: "0 \<le> t * t" "t * t \<le> t"
    using assms by (simp_all add: mult_left_le)
  have s: "0 \<le> (1 - 2 * t) * (1 - 2 * t)"
    by simp
  then have s': "4 * t - 4 * (t * t) \<le> 1"
    by (simp add: algebra_simps)
  have d: "- 2 * (2 * (t * t) - t) = 2 * t - 4 * (t * t)"
    by (simp add: algebra_simps)
  show "\<bar>basis_c2 t\<bar> \<le> 1"
    unfolding basis_c2_def power2_eq_square abs_le_iff using tt assms by (intro conjI; linarith)
  show "\<bar>basis_c1 t\<bar> \<le> 1"
    unfolding basis_c1_def basis_c2_def power2_eq_square abs_le_iff using tt assms s' d by (intro conjI; linarith)
  show "\<bar>basis_c0 t\<bar> \<le> 1"
    unfolding basis_c0_def basis_c2_def power2_eq_square abs_le_iff using tt assms s' by (intro conjI; linarith)
qed

lemma calc_rounded_sum_error:
  fixes rd :: "real \<Rightarrow> real"
  assumes "length u = nu m" "0 \<le> t" "t \<le> 1" "0 \<le> \<epsilon>" "\<epsilon> \<le> 1 / 100"
    and H: "\<forall>x. \<bar>x\<bar> \<le> 8 \<longrightarrow> \<bar>rd x - x\<bar> \<le> \<epsilon>"
  shows "\<exists>d'. PolyTwoRK4_calc_rounded rd m d t u = Ok d' \<and>
     \<bar>d_c d' 0 + d_c d' 1 + d_c d' 2 - 1\<bar> \<le> 22 * \<epsilon>"
proof -
  define t2 where "t2 = rd (t * t)"
  define c2 where "c2 = rd (rd (2 * t2) - t)"
  define c1 where "c1 = rd (rd (- 2 * c2) + rd (2 * t))"
  define c0 where "c0 = rd (rd (c2 - rd (2 * t)) + 1)"
  note e = rounded_coefficients_error [OF H assms(4,5,2,3) t2_def c2_def c1_def c0_def]
  note r = calc_rounded_Ok [OF assms(1) t2_def c2_def c1_def c0_def, of d]
  have "\<bar>c0 + c1 + c2 - 1\<bar> \<le> 22 * \<epsilon>"
    using e basis_sum [of t] unfolding abs_le_iff by (elim conjE, intro conjI; linarith)
  then show ?thesis
    unfolding r by simp
qed

lemma length_rounded_combination:
  "length (vec_add_rd rd (vec_add_rd rd (vec_scale_rd rd c2 w) (vec_scale_rd rd c1 w))
     (vec_scale_rd rd c0 w)) = length w"
  by (simp add: vec_add_rd_def vec_scale_rd_def)

lemma nth_rounded_combination:
  assumes "i < length w"
  shows "vec_add_rd rd (vec_add_rd rd (vec_scale_rd rd c2 w) (vec_scale_rd rd c1 w))
           (vec_scale_rd rd c0 w) ! i =
         rd (rd (rd (c2 * w ! i) + rd (c1 * w ! i)) + rd (c0 * w ! i))"
  using assms by (simp add: vec_add_rd_def vec_scale_rd_def)

lemma round_trip_error:
  fixes rd :: "real \<Rightarrow> real"
  assumes m: "nu m = 3 * nw m" "length (d_u d) = nu m" "length w = nw m"
    and t: "0 \<le> t" "t \<le> 1" and W: "1 \<le> W" "\<forall>x\<in>set w. \<bar>x\<bar> \<le> W"
    and eps: "0 \<le> \<epsilon>" "\<epsilon> \<le> 1 / 100"
    and H: "\<forall>x. \<bar>x\<bar> \<le> 8 * W \<longrightarrow> \<bar>rd x - x\<bar> \<le> \<epsilon>"
  shows "\<exists>d1 d2. PolyTwoRK4_params m d t w = Ok d1 \<and> d_u d1 = w @ w @ w \<and>
     PolyTwoRK4_calc_rounded rd m d1 t (d_u d1) = Ok d2 \<and> length (d_w d2) = nw m \<and>
     (\<forall>i<nw m. \<bar>d_w d2 ! i - w ! i\<bar> \<le> (22 * W + 5) * \<epsilon>)"
proof -
  define t2 where "t2 = rd (t * t)"
  define c2 where "c2 = rd (rd (2 * t2) - t)"
  define c1 where "c1 = rd (rd (- 2 * c2) + rd (2 * t))"
  define c0 where "c0 = rd (rd (c2 - rd (2 * t)) + 1)"
  have H8: "\<forall>x. \<bar>x\<bar> \<le> 8 \<longrightarrow> \<bar>rd x - x\<bar> \<le> \<epsilon>"
    using H W(1) by (auto intro!: H [rule_format] elim: order_trans)
  note e = rounded_coefficients_error [OF H8 eps t t2_def c2_def c1_def c0_def]
  have len: "length (w @ w @ w) = nu m"
    using m by simp
  note r = calc_rounded_Ok [OF len t2_def c2_def c1_def c0_def, of "d\<lparr>d_u := w @ w @ w\<rparr>"]
  have p: "PolyTwoRK4_params m d t w = Ok (d\<lparr>d_u := w @ w @ w\<rparr>)"
    using m by (rule params_Ok)
  have "\<bar>rd (rd (rd (c2 * w ! i) + rd (c1 * w ! i)) + rd (c0 * w ! i)) - w ! i\<bar> \<le> (22 * W + 5) * \<epsilon>"
    if "i < nw m" for i
  proof -
    from that m(3) W(2) have "\<bar>w ! i\<bar> \<le> W" by simp
    with H eps W(1) show ?thesis
      using e basis_bounds [OF t] basis_sum [of t] by (intro rounded_combination_error)
  qed
  then have "\<forall>i<nw m. \<bar>vec_add_rd rd (vec_add_rd rd (vec_scale_rd rd c2 w) (vec_scale_rd rd c1 w))
           (vec_scale_rd rd c0 w) ! i - w ! i\<bar> \<le> (22 * W + 5) * \<epsilon>"
    using m(3) by (simp add: nth_rounded_combination)
  then show ?thesis
    unfolding p using m(3) by (simp add: r thirds_of_replicated length_rounded_combination)
qed

lemma rounded_combination_at_ends:
  assumes "rd 0 = 0" "\<forall>x\<in>set w. rd x = x"
  shows "vec_add_rd rd (vec_add_rd rd (vec_scale_rd rd 0 w) (vec_scale_rd rd 0 w))
           (vec_scale_rd rd 1 w) = w"
    and "vec_add_rd rd (vec_add_rd rd (vec_scale_rd rd 1 w) (vec_scale_rd rd 0 w))
           (vec_scale_rd rd 0 w) = w"
  using assms by (induction w) (simp_all add: vec_add_rd_def vec_scale_rd_def)

lemma round_trip_exact:
  assumes "nu m = 3 * nw m" "length (d_u d) = nu m" "length w = nw m"
  shows "\<exists>d1 d2. PolyTwoRK4_params m d t w = Ok d1 \<and> d_u d1 = w @ w @ w \<and>
            PolyTwoRK4_calc_rounded (\<lambda>x. x) m d1 t (d_u d1) = Ok d2 \<and> d_w d2 = w"
proof -
  have "2 * (t * t) - t + (- 2 * (2 * (t * t) - t) + 2 * t) + (2 * (t * t) - t - 2 * t + 1) = 1"
    by simp
  then have "vec_add (vec_add (vec_scale (2 * (t * t) - t) w)
                 (vec_scale (- 2 * (2 * (t * t) - t) + 2 * t) w))
               (vec_scale (2 * (t * t) - t - 2 * t + 1) w) = w"
    by (rule combination_of_equal_nodes)
  with assms show ?thesis
    by (simp add: params_Ok calc_rounded_exact calc_Ok thirds_of_replicated)
qed

lemma round_trip_at_ends:
  assumes "nu m = 3 * nw m" "length (d_u d) = nu m" "length w = nw m"
    and "rd 0 = 0" "rd 1 = 1" "rd 2 = 2" "rd (- 1) = - 1" "rd (- 2) = - 2"
    and "\<forall>x\<in>set w. rd x = x"
  shows "\<exists>d1 d2. PolyTwoRK4_params m d 0 w = Ok d1 \<and> d_u d1 = w @ w @ w \<and>
            PolyTwoRK4_calc_rounded rd m d1 0 (d_u d1) = Ok d2 \<and> d_w d2 = w"
    and "\<exists>d1 d2. PolyTwoRK4_params m d 1 w = Ok d1 \<and> d_u d1 = w @ w @ w \<and>
            PolyTwoRK4_calc_rounded rd m d1 1 (d_u d1) = Ok d2 \<and> d_w d2 = w"
  using assms
  by (simp_all add: params_Ok calc_rounded_at_0 calc_rounded_at_1 thirds_of_replicated
      rounded_combination_at_ends)

lemma multiplyByJacobian_entries:
  assumes "nu m = 3 * nw m" "rows A = rows out" "cols A = nw m" "cols out = nu m"
    "is_a_AssignmentOp op"
  shows "\<exists>res. multiplyByJacobian asserts m d A out op = Ok res \<and>
     rows res = rows out \<and> cols res = cols out \<and>
     (\<forall>i<rows out. \<forall>j<cols out.
        coeff res i j =
          accumulate op (coeff out i j)
            (third (nw m) j (d_c d 0) (d_c d 1) (d_c d 2) * coeff A i (j mod nw m)))"
proof (cases op)
  case setto
  with assms show ?thesis
    by (simp add: multiplyByJacobian_def is_a_AssignmentOp_def Let_def coeff_three_cols
        accumulate_def assign_def)
next
  case addto
  with assms show ?thesis
    by (simp add: multiplyByJacobian_def is_a_AssignmentOp_def Let_def coeff_three_cols
        accumulate_def)
next
  case rmfrom
  with assms show ?thesis
    by (simp add: multiplyByJacobian_def is_a_AssignmentOp_def Let_def coeff_three_cols
        accumulate_def)
next
  case other_op
  with assms show ?thesis
    by (simp add: is_a_AssignmentOp_def)
qed


lemma jacobian_products_transposed:
  "rows A = rows out \<and> cols A = nw m \<and> cols out = nu m \<and> is_a_AssignmentOp op \<longrightarrow>
   (\<exists>res. multiplyByJacobian asserts m d A out op = Ok res \<and>
          multiplyJacobianTransposeBy asserts m d (mat_transpose A) (mat_transpose out) op =
            Ok (mat_transpose res))"
  by (cases op)
    (simp_all add: multiplyByJacobian_def multiplyJacobianTransposeBy_def is_a_AssignmentOp_def
      Let_def mat_transpose_cols_upd mat_transpose_mat_scale)

lemma quarter_data_c:
  "d_c quarter_data 0 = 3 / 8" "d_c quarter_data (Suc 0) = 3 / 4" "d_c quarter_data 2 = - 1 / 8"
  by (simp_all add: quarter_data_def calc_Ok PolyTwoRK4_def)

text \<open>
  C6. The claim: for every \<open>t\<close> the coefficients that \<open>calc\<close> stores satisfy
  \<open>c0 + c1 + c2 = 1\<close>, and they are \<open>(1, 0, 0)\<close> at \<open>t = 0\<close> and \<open>(0, 0, 1)\<close> at \<open>t = 1\<close>. With
  the rounding of doubles the sum is not \<open>1\<close> at every \<open>t\<close>. What holds: at \<open>t = 0\<close> and at
  \<open>t = 1\<close> the stored coefficients are exactly \<open>(1, 0, 0)\<close> and \<open>(0, 0, 1)\<close>, under every
  rounding that leaves \<open>-2\<close>, \<open>-1\<close>, \<open>0\<close>, \<open>1\<close> and \<open>2\<close> unchanged; for every \<open>t\<close> in \<open>[0, 1]\<close>
  the sum of the stored coefficients differs from \<open>1\<close> by at most \<open>22 \<epsilon>\<close>, under every
  rounding whose error on \<open>[-8, 8]\<close> is at most \<open>\<epsilon> \<le> 1/100\<close> (for doubles,
  \<open>\<epsilon> = 2 powi (-50)\<close>); and without rounding the sum is \<open>1\<close> for every \<open>t\<close>.
\<close>

theorem calc_rounded_partition_of_unity:
  "(length u = nu m \<and> rd 0 = 0 \<and> rd 1 = 1 \<and> rd 2 = 2 \<and> rd (- 1) = - 1 \<and> rd (- 2) = - 2 \<longrightarrow>
      (\<exists>d'. PolyTwoRK4_calc_rounded rd m d 0 u = Ok d' \<and>
            (d_c d' 0, d_c d' 1, d_c d' 2) = (1, 0, 0)) \<and>
      (\<exists>d'. PolyTwoRK4_calc_rounded rd m d 1 u = Ok d' \<and>
            (d_c d' 0, d_c d' 1, d_c d' 2) = (0, 0, 1))) \<and>
   (length u = nu m \<and> 0 \<le> t \<and> t \<le> 1 \<and> 0 \<le> \<epsilon> \<and> \<epsilon> \<le> 1 / 100 \<and>
    (\<forall>x. \<bar>x\<bar> \<le> 8 \<longrightarrow> \<bar>rd x - x\<bar> \<le> \<epsilon>) \<longrightarrow>
      (\<exists>d'. PolyTwoRK4_calc_rounded rd m d t u = Ok d' \<and>
            \<bar>d_c d' 0 + d_c d' 1 + d_c d' 2 - 1\<bar> \<le> 22 * \<epsilon>)) \<and>
   (length u = nu m \<longrightarrow>
      (\<exists>d'. PolyTwoRK4_calc_rounded (\<lambda>x. x) m d s u = Ok d' \<and>
            d_c d' 0 + d_c d' 1 + d_c d' 2 = 1))"
proof (intro conjI impI)
  assume "length u = nu m \<and> rd 0 = 0 \<and> rd 1 = 1 \<and> rd 2 = 2 \<and> rd (- 1) = - 1 \<and> rd (- 2) = - 2"
  then show "\<exists>d'. PolyTwoRK4_calc_rounded rd m d 0 u = Ok d' \<and>
            (d_c d' 0, d_c d' 1, d_c d' 2) = (1, 0, 0)"
    and "\<exists>d'. PolyTwoRK4_calc_rounded rd m d 1 u = Ok d' \<and>
            (d_c d' 0, d_c d' 1, d_c d' 2) = (0, 0, 1)"
    by (simp_all add: calc_rounded_at_0 calc_rounded_at_1)
next
  assume "length u = nu m \<and> 0 \<le> t \<and> t \<le> 1 \<and> 0 \<le> \<epsilon> \<and> \<epsilon> \<le> 1 / 100 \<and>
    (\<forall>x. \<bar>x\<bar> \<le> 8 \<longrightarrow> \<bar>rd x - x\<bar> \<le> \<epsilon>)"
  then show "\<exists>d'. PolyTwoRK4_calc_rounded rd m d t u = Ok d' \<and>
            \<bar>d_c d' 0 + d_c d' 1 + d_c d' 2 - 1\<bar> \<le> 22 * \<epsilon>"
    by (intro calc_rounded_sum_error) simp_all
next
  assume "length u = nu m"
  then show "\<exists>d'. PolyTwoRK4_calc_rounded (\<lambda>x. x) m d s u = Ok d' \<and>
            d_c d' 0 + d_c d' 1 + d_c d' 2 = 1"
    by (simp add: calc_rounded_exact calc_Ok)
qed

theorem calc_rounded_partition_of_unity_witness:
  "(\<exists>d'. PolyTwoRK4_calc_rounded rd_double (PolyTwoRK4 1) (zero_data 1) 0 [1, 2, 3] = Ok d' \<and>
         (d_c d' 0, d_c d' 1, d_c d' 2) = (1, 0, 0)) \<and>
   (\<exists>d'. PolyTwoRK4_calc_rounded rd_double (PolyTwoRK4 1) (zero_data 1) 1 [1, 2, 3] = Ok d' \<and>
         (d_c d' 0, d_c d' 1, d_c d' 2) = (0, 0, 1)) \<and>
   (\<exists>d'. PolyTwoRK4_calc_rounded rd_double (PolyTwoRK4 1) (zero_data 1)
            (3152519739159347 / 2 ^ 52) [1, 2, 3] = Ok d' \<and>
         \<bar>d_c d' 0 + d_c d' 1 + d_c d' 2 - 1\<bar> \<le> 22 * (1 / 2 ^ 50)) \<and>
   (\<exists>d'. PolyTwoRK4_calc_rounded (\<lambda>x. x) (PolyTwoRK4 1) (zero_data 1) (7 / 10) [1, 2, 3] = Ok d' \<and>
         d_c d' 0 + d_c d' 1 + d_c d' 2 = 1)"
proof -
  have h1: "length [1, 2, 3 :: real] = nu (PolyTwoRK4 1) \<and> rd_double 0 = 0 \<and> rd_double 1 = 1 \<and>
      rd_double 2 = 2 \<and> rd_double (- 1) = - 1 \<and> rd_double (- 2) = - 2"
    by (simp add: PolyTwoRK4_def rd_double_small_integers)
  have h2: "length [1, 2, 3 :: real] = nu (PolyTwoRK4 1) \<and>
      (0::real) \<le> 3152519739159347 / 2 ^ 52 \<and> (3152519739159347 / 2 ^ 52 :: real) \<le> 1 \<and>
      (0::real) \<le> 1 / 2 ^ 50 \<and> (1 / 2 ^ 50 :: real) \<le> 1 / 100 \<and>
      (\<forall>x. \<bar>x\<bar> \<le> 8 \<longrightarrow> \<bar>rd_double x - x\<bar> \<le> 1 / 2 ^ 50)"
    using rd_double_error_8 by (simp add: PolyTwoRK4_def)
  have h3: "length [1, 2, 3 :: real] = nu (PolyTwoRK4 1)"
    by (simp add: PolyTwoRK4_def)
  from calc_rounded_partition_of_unity [where u = "[1, 2, 3]" and m = "PolyTwoRK4 1"
      and rd = rd_double and d = "zero_data 1" and t = "3152519739159347 / 2 ^ 52"
      and \<epsilon> = "1 / 2 ^ 50" and s = "7 / 10"] h1 h2 h3
  show ?thesis by blast
qed

theorem calc_rounded_sum_counterexample:
  "d_c (state_of (PolyTwoRK4_calc_rounded rd_double (PolyTwoRK4 1) (zero_data 1)
          (3152519739159347 / 2 ^ 52) [0, 0, 0])) 0 +
   d_c (state_of (PolyTwoRK4_calc_rounded rd_double (PolyTwoRK4 1) (zero_data 1)
          (3152519739159347 / 2 ^ 52) [0, 0, 0])) 1 +
   d_c (state_of (PolyTwoRK4_calc_rounded rd_double (PolyTwoRK4 1) (zero_data 1)
          (3152519739159347 / 2 ^ 52) [0, 0, 0])) 2 = 1 - 1 / 2 ^ 53"
proof -
  have "length [0, 0, 0 :: real] = nu (PolyTwoRK4 1)"
    by (simp add: PolyTwoRK4_def)
  note r = calc_rounded_at_seven_tenths [OF this, of "zero_data 1"]
  show ?thesis
    unfolding r by simp
qed

text \<open>
  C5. The claim: for every \<open>t\<close> in \<open>[0, 1]\<close> and every \<open>w\<close> of length \<open>nw\<close>, \<open>params(data, t, w)\<close>
  and then \<open>calc(data, t, u)\<close> with the produced \<open>u\<close> writes \<open>w\<close> back. \<open>params\<close> does set
  \<open>p0 = p1 = p2 = w\<close>, but with the rounding of doubles \<open>calc\<close> does not return \<open>w\<close> at every
  \<open>t\<close>. What holds, for a model with \<open>nu = 3 nw\<close>, a data whose \<open>u\<close> has length \<open>nu\<close> and \<open>w\<close> of
  length \<open>nw\<close>: \<open>params\<close> leaves \<open>w\<close> three times in \<open>u\<close>; at \<open>t = 0\<close> and at \<open>t = 1\<close> \<open>calc\<close>
  writes exactly \<open>w\<close> back, under every rounding that leaves \<open>-2\<close>, \<open>-1\<close>, \<open>0\<close>, \<open>1\<close>, \<open>2\<close> and the
  coefficients of \<open>w\<close> unchanged; for every \<open>t\<close> in \<open>[0, 1]\<close> each coefficient written differs from
  that of \<open>w\<close> by at most \<open>(22 W + 5) \<epsilon>\<close>, when the coefficients of \<open>w\<close> are at most \<open>W \<ge> 1\<close> in
  absolute value and the error of the rounding on \<open>[-8 W, 8 W]\<close> is at most \<open>\<epsilon> \<le> 1/100\<close>; and
  without rounding \<open>calc\<close> writes exactly \<open>w\<close> back for every \<open>t\<close>.
\<close>

theorem params_calc_rounded_round_trip:
  "(nu m = 3 * nw m \<and> length (d_u d) = nu m \<and> length w = nw m \<and>
    rd 0 = 0 \<and> rd 1 = 1 \<and> rd 2 = 2 \<and> rd (- 1) = - 1 \<and> rd (- 2) = - 2 \<and>
    (\<forall>x\<in>set w. rd x = x) \<longrightarrow>
      (\<exists>d1 d2. PolyTwoRK4_params m d 0 w = Ok d1 \<and> d_u d1 = w @ w @ w \<and>
          PolyTwoRK4_calc_rounded rd m d1 0 (d_u d1) = Ok d2 \<and> d_w d2 = w) \<and>
      (\<exists>d1 d2. PolyTwoRK4_params m d 1 w = Ok d1 \<and> d_u d1 = w @ w @ w \<and>
          PolyTwoRK4_calc_rounded rd m d1 1 (d_u d1) = Ok d2 \<and> d_w d2 = w)) \<and>
   (nu m = 3 * nw m \<and> length (d_u d) = nu m \<and> length w = nw m \<and> 0 \<le> t \<and> t \<le> 1 \<and>
    1 \<le> W \<and> (\<forall>x\<in>set w. \<bar>x\<bar> \<le> W) \<and> 0 \<le> \<epsilon> \<and> \<epsilon> \<le> 1 / 100 \<and>
    (\<forall>x. \<bar>x\<bar> \<le> 8 * W \<longrightarrow> \<bar>rd x - x\<bar> \<le> \<epsilon>) \<longrightarrow>
      (\<exists>d1 d2. PolyTwoRK4_params m d t w = Ok d1 \<and> d_u d1 = w @ w @ w \<and>
          PolyTwoRK4_calc_rounded rd m d1 t (d_u d1) = Ok d2 \<and> length (d_w d2) = nw m \<and>
          (\<forall>i<nw m. \<bar>d_w d2 ! i - w ! i\<bar> \<le> (22 * W + 5) * \<epsilon>))) \<and>
   (nu m = 3 * nw m \<and> length (d_u d) = nu m \<and> length w = nw m \<longrightarrow>
      (\<exists>d1 d2. PolyTwoRK4_params m d s w = Ok d1 \<and> d_u d1 = w @ w @ w \<and>
          PolyTwoRK4_calc_rounded (\<lambda>x. x) m d1 s (d_u d1) = Ok d2 \<and> d_w d2 = w))"
proof (intro conjI impI)
  assume h: "nu m = 3 * nw m \<and> length (d_u d) = nu m \<and> length w = nw m \<and>
    rd 0 = 0 \<and> rd 1 = 1 \<and> rd 2 = 2 \<and> rd (- 1) = - 1 \<and> rd (- 2) = - 2 \<and>
    (\<forall>x\<in>set w. rd x = x)"
  then show "\<exists>d1 d2. PolyTwoRK4_params m d 0 w = Ok d1 \<and> d_u d1 = w @ w @ w \<and>
          PolyTwoRK4_calc_rounded rd m d1 0 (d_u d1) = Ok d2 \<and> d_w d2 = w"
    by (intro round_trip_at_ends(1)) simp_all
  from h show "\<exists>d1 d2. PolyTwoRK4_params m d 1 w = Ok d1 \<and> d_u d1 = w @ w @ w \<and>
          PolyTwoRK4_calc_rounded rd m d1 1 (d_u d1) = Ok d2 \<and> d_w d2 = w"
    by (intro round_trip_at_ends(2)) simp_all
next
  assume "nu m = 3 * nw m \<and> length (d_u d) = nu m \<and> length w = nw m \<and> 0 \<le> t \<and> t \<le> 1 \<and>
    1 \<le> W \<and> (\<forall>x\<in>set w. \<bar>x\<bar> \<le> W) \<and> 0 \<le> \<epsilon> \<and> \<epsilon> \<le> 1 / 100 \<and>
    (\<forall>x. \<bar>x\<bar> \<le> 8 * W \<longrightarrow> \<bar>rd x - x\<bar> \<le> \<epsilon>)"
  then show "\<exists>d1 d2. PolyTwoRK4_params m d t w = Ok d1 \<and> d_u d1 = w @ w @ w \<and>
          PolyTwoRK4_calc_rounded rd m d1 t (d_u d1) = Ok d2 \<and> length (d_w d2) = nw m \<and>
          (\<forall>i<nw m. \<bar>d_w d2 ! i - w ! i\<bar> \<le> (22 * W + 5) * \<epsilon>)"
    by (intro round_trip_error) simp_all
next
  assume "nu m = 3 * nw m \<and> length (d_u d) = nu m \<and> length w = nw m"
  then show "\<exists>d1 d2. PolyTwoRK4_params m d s w = Ok d1 \<and> d_u d1 = w @ w @ w \<and>
          PolyTwoRK4_calc_rounded (\<lambda>x. x) m d1 s (d_u d1) = Ok d2 \<and> d_w d2 = w"
    by (intro round_trip_exact) simp_all
qed

theorem params_calc_rounded_round_trip_witness:
  "(\<exists>d1 d2. PolyTwoRK4_params (PolyTwoRK4 2) (zero_data 2) 0 [5, 7] = Ok d1 \<and>
       d_u d1 = [5, 7, 5, 7, 5, 7] \<and>
       PolyTwoRK4_calc_rounded rd_double (PolyTwoRK4 2) d1 0 (d_u d1) = Ok d2 \<and> d_w d2 = [5, 7]) \<and>
   (\<exists>d1 d2. PolyTwoRK4_params (PolyTwoRK4 2) (zero_data 2) 1 [5, 7] = Ok d1 \<and>
       d_u d1 = [5, 7, 5, 7, 5, 7] \<and>
       PolyTwoRK4_calc_rounded rd_double (PolyTwoRK4 2) d1 1 (d_u d1) = Ok d2 \<and> d_w d2 = [5, 7]) \<and>
   (\<exists>d1 d2. PolyTwoRK4_params (PolyTwoRK4 2) (zero_data 2) (3152519739159347 / 2 ^ 52) [5, 7] =
         Ok d1 \<and>
       PolyTwoRK4_calc_rounded rd_double (PolyTwoRK4 2) d1 (3152519739159347 / 2 ^ 52) (d_u d1) =
         Ok d2 \<and>
       \<bar>d_w d2 ! 0 - 5\<bar> \<le> 181 / 2 ^ 47 \<and> \<bar>d_w d2 ! 1 - 7\<bar> \<le> 181 / 2 ^ 47) \<and>
   (\<exists>d1 d2. PolyTwoRK4_params (PolyTwoRK4 2) (zero_data 2) (7 / 10) [5, 7] = Ok d1 \<and>
       d_u d1 = [5, 7, 5, 7, 5, 7] \<and>
       PolyTwoRK4_calc_rounded (\<lambda>x. x) (PolyTwoRK4 2) d1 (7 / 10) (d_u d1) = Ok d2 \<and>
       d_w d2 = [5, 7])"
proof -
  let ?m = "PolyTwoRK4 2" and ?d = "zero_data 2" and ?w = "[5, 7 :: real]"
  let ?t = "3152519739159347 / 2 ^ 52 :: real"
  have s: "nu ?m = 3 * nw ?m \<and> length (d_u ?d) = nu ?m \<and> length ?w = nw ?m"
    by (simp add: PolyTwoRK4_def zero_data_def VZero_def)
  have h1: "nu ?m = 3 * nw ?m \<and> length (d_u ?d) = nu ?m \<and> length ?w = nw ?m \<and>
      rd_double 0 = 0 \<and> rd_double 1 = 1 \<and> rd_double 2 = 2 \<and> rd_double (- 1) = - 1 \<and>
      rd_double (- 2) = - 2 \<and> (\<forall>x\<in>set ?w. rd_double x = x)"
    using s by (simp add: rd_double_small_integers rd_double_5_7)
  have h2: "nu ?m = 3 * nw ?m \<and> length (d_u ?d) = nu ?m \<and> length ?w = nw ?m \<and> 0 \<le> ?t \<and> ?t \<le> 1 \<and>
      (1::real) \<le> 8 \<and> (\<forall>x\<in>set ?w. \<bar>x\<bar> \<le> 8) \<and> (0::real) \<le> 1 / 2 ^ 47 \<and>
      (1 / 2 ^ 47 :: real) \<le> 1 / 100 \<and>
      (\<forall>x. \<bar>x\<bar> \<le> 8 * 8 \<longrightarrow> \<bar>rd_double x - x\<bar> \<le> 1 / 2 ^ 47)"
    using s rd_double_error_64 by simp
  note T = params_calc_rounded_round_trip [where m = ?m and d = ?d and w = ?w and rd = rd_double
      and t = ?t and W = 8 and \<epsilon> = "1 / 2 ^ 47" and s = "7 / 10"]
  from T h1 have A: "(\<exists>d1 d2. PolyTwoRK4_params ?m ?d 0 ?w = Ok d1 \<and> d_u d1 = ?w @ ?w @ ?w \<and>
          PolyTwoRK4_calc_rounded rd_double ?m d1 0 (d_u d1) = Ok d2 \<and> d_w d2 = ?w) \<and>
      (\<exists>d1 d2. PolyTwoRK4_params ?m ?d 1 ?w = Ok d1 \<and> d_u d1 = ?w @ ?w @ ?w \<and>
          PolyTwoRK4_calc_rounded rd_double ?m d1 1 (d_u d1) = Ok d2 \<and> d_w d2 = ?w)"
    by blast
  from T h2 obtain d1 d2 where B: "PolyTwoRK4_params ?m ?d ?t ?w = Ok d1"
    "PolyTwoRK4_calc_rounded rd_double ?m d1 ?t (d_u d1) = Ok d2"
    "\<forall>i<nw ?m. \<bar>d_w d2 ! i - ?w ! i\<bar> \<le> (22 * 8 + 5) * (1 / 2 ^ 47)"
    by blast
  from B(3) [rule_format, of 0] B(3) [rule_format, of 1]
  have "\<bar>d_w d2 ! 0 - 5\<bar> \<le> 181 / 2 ^ 47 \<and> \<bar>d_w d2 ! 1 - 7\<bar> \<le> 181 / 2 ^ 47"
    by (simp add: PolyTwoRK4_def)
  with B have B': "\<exists>d1 d2. PolyTwoRK4_params ?m ?d ?t ?w = Ok d1 \<and>
       PolyTwoRK4_calc_rounded rd_double ?m d1 ?t (d_u d1) = Ok d2 \<and>
       \<bar>d_w d2 ! 0 - 5\<bar> \<le> 181 / 2 ^ 47 \<and> \<bar>d_w d2 ! 1 - 7\<bar> \<le> 181 / 2 ^ 47"
    by blast
  from T s have C: "\<exists>d1 d2. PolyTwoRK4_params ?m ?d (7 / 10) ?w = Ok d1 \<and> d_u d1 = ?w @ ?w @ ?w \<and>
          PolyTwoRK4_calc_rounded (\<lambda>x. x) ?m d1 (7 / 10) (d_u d1) = Ok d2 \<and> d_w d2 = ?w"
    by blast
  from A B' C show ?thesis by simp
qed

theorem round_trip_rounded_counterexample:
  "d_w (state_of (PolyTwoRK4_calc_rounded rd_double (PolyTwoRK4 1)
          (state_of (PolyTwoRK4_params (PolyTwoRK4 1) (zero_data 1) (3152519739159347 / 2 ^ 52) [5]))
          (3152519739159347 / 2 ^ 52)
          (d_u (state_of (PolyTwoRK4_params (PolyTwoRK4 1) (zero_data 1)
             (3152519739159347 / 2 ^ 52) [5]))))) = [5 - 1 / 2 ^ 50]"
proof -
  have p: "PolyTwoRK4_params (PolyTwoRK4 1) (zero_data 1) (3152519739159347 / 2 ^ 52) [5] =
      Ok ((zero_data 1)\<lparr>d_u := [5, 5, 5]\<rparr>)"
    using params_Ok [of "PolyTwoRK4 1" "zero_data 1" "[5]"]
    by (simp add: PolyTwoRK4_def zero_data_def VZero_def)
  have m2: "rd_double (2522015791327477 / 2 ^ 53 * 5) = 1576259869579673 / 2 ^ 50"
    by (simp add: rd_double_eq [where k = 0] round_even_def power_int_minus)
  have m1: "rd_double (3783023686991217 / 2 ^ 52 * 5) = 4728779608739021 / 2 ^ 50"
    by (simp add: rd_double_eq [where k = 2] round_even_def power_int_minus)
  have s1: "rd_double (1576259869579673 / 2 ^ 50 + 4728779608739021 / 2 ^ 50) =
      3152519739159347 / 2 ^ 49"
    by (simp add: rd_double_eq [where k = 2] round_even_def power_int_minus)
  have m0: "rd_double (- 135107988821115 / 2 ^ 50 * 5) = - 675539944105575 / 2 ^ 50"
    by (simp add: rd_double_eq [where k = "- 1"] round_even_def power_int_minus)
  have w: "rd_double (3152519739159347 / 2 ^ 49 + - 675539944105575 / 2 ^ 50) = 5 - 1 / 2 ^ 50"
    by (simp add: rd_double_eq [where k = 2] round_even_def power_int_minus)
  have "vec_add_rd rd_double
          (vec_add_rd rd_double (vec_scale_rd rd_double (2522015791327477 / 2 ^ 53) [5])
             (vec_scale_rd rd_double (3783023686991217 / 2 ^ 52) [5]))
          (vec_scale_rd rd_double (- 135107988821115 / 2 ^ 50) [5]) = [5 - 1 / 2 ^ 50]"
    unfolding vec_add_rd_def vec_scale_rd_def by (simp only: list.map zip.simps list.case prod.case m2 m1 s1 m0 w)
  moreover have "head [5, 5, 5 :: real] 1 = [5]" "segment [5, 5, 5 :: real] 1 1 = [5]"
    "tail [5, 5, 5 :: real] 1 = [5]"
    by (simp_all add: head_def segment_def tail_def)
  moreover have n: "nw (PolyTwoRK4 1) = 1"
    by (simp add: PolyTwoRK4_def)
  moreover have "length [5, 5, 5 :: real] = nu (PolyTwoRK4 1)"
    by (simp add: PolyTwoRK4_def)
  note r = calc_rounded_at_seven_tenths [OF this, of "(zero_data 1)\<lparr>d_u := [5, 5, 5]\<rparr>"]
  have du: "d_u ((zero_data 1)\<lparr>d_u := [5, 5, 5]\<rparr>) = [5, 5, 5 :: real]"
    by simp
  from calculation show ?thesis
    unfolding p state_of.simps du r by simp
qed

text \<open>
  C4. The claim: after \<open>calcDiff(data, t, u)\<close>, for any \<open>t\<close> and \<open>u\<close>, the Jacobian in the data
  is the block row \<open>[c0(t) I, c1(t) I, c2(t) I]\<close>. \<open>calcDiff\<close> does not use its time: it
  writes the coefficients that the data holds. What holds: after \<open>calc(data, t, u)\<close> and
  then \<open>calcDiff(data, t', u')\<close> on the same data, for any \<open>t'\<close> and \<open>u'\<close>, on a data whose
  Jacobian is \<open>nw \<times> 3 nw\<close> and zero off the diagonals of its three blocks, the Jacobian is
  the block row \<open>[c0(t) I, c1(t) I, c2(t) I]\<close> of the time \<open>t\<close> given to \<open>calc\<close>; it depends
  neither on \<open>u\<close>, nor on \<open>u'\<close>, nor on \<open>t'\<close>.
\<close>

theorem calcDiff_jacobian_of_last_calc:
  assumes "nu m = 3 * nw m" "length u = nu m"
    and "rows (dw_du d) = nw m" "cols (dw_du d) = nu m"
    and "\<forall>i<nw m. \<forall>j<nu m. j \<noteq> i \<and> j \<noteq> nw m + i \<and> j \<noteq> 2 * nw m + i \<longrightarrow> coeff (dw_du d) i j = 0"
  shows "\<exists>d1 d2. PolyTwoRK4_calc m d t u = Ok d1 \<and> PolyTwoRK4_calcDiff m d1 t' u' = Ok d2 \<and>
     rows (dw_du d2) = nw m \<and> cols (dw_du d2) = 3 * nw m \<and>
     (\<forall>i<nw m. \<forall>j<3 * nw m. coeff (dw_du d2) i j =
        (if j = i then basis_c0 t else if j = nw m + i then basis_c1 t
         else if j = 2 * nw m + i then basis_c2 t else 0))"
proof -
  obtain d1 where d1: "PolyTwoRK4_calc m d t u = Ok d1"
    and c: "d_c d1 0 = basis_c0 t" "d_c d1 1 = basis_c1 t" "d_c d1 2 = basis_c2 t"
    and J: "dw_du d1 = dw_du d"
    using assms(2) by (rule calc_stores_basis)
  let ?d2 = "d1\<lparr>dw_du := cols_diagonal_fill
            (cols_diagonal_fill (cols_diagonal_fill (dw_du d1) 0 (nw m) (d_c d1 0))
               (nw m) (nw m) (d_c d1 1))
            (cols (dw_du d1) - nw m) (nw m) (d_c d1 2)\<rparr>"
  have "PolyTwoRK4_calcDiff m d1 t' u' = Ok ?d2"
    by (rule calcDiff_Ok)
  moreover have "rows (dw_du ?d2) = nw m" "cols (dw_du ?d2) = 3 * nw m"
    using assms(1,3,4) J by (simp_all add: dims_cols_diagonal_fill)
  moreover have "\<forall>i<nw m. \<forall>j<3 * nw m. coeff (dw_du ?d2) i j =
        (if j = i then basis_c0 t else if j = nw m + i then basis_c1 t
         else if j = 2 * nw m + i then basis_c2 t else 0)"
    using assms(1,3,4,5) J c by (simp add: cols_diagonal_fill_def)
  ultimately show ?thesis
    using d1 by blast
qed

theorem calcDiff_jacobian_of_last_calc_witness:
  "\<exists>d1 d2. PolyTwoRK4_calc (PolyTwoRK4 1) (zero_data 1) (1 / 2) [1, 2, 3] = Ok d1 \<and>
       PolyTwoRK4_calcDiff (PolyTwoRK4 1) d1 7 [] = Ok d2 \<and>
       coeff (dw_du d2) 0 0 = 0 \<and> coeff (dw_du d2) 0 1 = 1 \<and> coeff (dw_du d2) 0 2 = 0"
proof -
  have h: "nu (PolyTwoRK4 1) = 3 * nw (PolyTwoRK4 1)" "length [1, 2, 3 :: real] = nu (PolyTwoRK4 1)"
    "rows (dw_du (zero_data 1)) = nw (PolyTwoRK4 1)" "cols (dw_du (zero_data 1)) = nu (PolyTwoRK4 1)"
    "\<forall>i<nw (PolyTwoRK4 1). \<forall>j<nu (PolyTwoRK4 1).
       j \<noteq> i \<and> j \<noteq> nw (PolyTwoRK4 1) + i \<and> j \<noteq> 2 * nw (PolyTwoRK4 1) + i \<longrightarrow>
       coeff (dw_du (zero_data 1)) i j = 0"
    by (simp_all add: PolyTwoRK4_def zero_data_def Zero_def)
  from calcDiff_jacobian_of_last_calc [OF h, of "1 / 2" 7 "[]"]
  obtain d1 d2 where "PolyTwoRK4_calc (PolyTwoRK4 1) (zero_data 1) (1 / 2) [1, 2, 3] = Ok d1"
    "PolyTwoRK4_calcDiff (PolyTwoRK4 1) d1 7 [] = Ok d2"
    "\<forall>i<nw (PolyTwoRK4 1). \<forall>j<3 * nw (PolyTwoRK4 1). coeff (dw_du d2) i j =
        (if j = i then basis_c0 (1 / 2) else if j = nw (PolyTwoRK4 1) + i then basis_c1 (1 / 2)
         else if j = 2 * nw (PolyTwoRK4 1) + i then basis_c2 (1 / 2) else 0)"
    by blast
  then have "PolyTwoRK4_calc (PolyTwoRK4 1) (zero_data 1) (1 / 2) [1, 2, 3] = Ok d1 \<and>
       PolyTwoRK4_calcDiff (PolyTwoRK4 1) d1 7 [] = Ok d2 \<and>
       coeff (dw_du d2) 0 0 = 0 \<and> coeff (dw_du d2) 0 1 = 1 \<and> coeff (dw_du d2) 0 2 = 0"
    by (simp add: PolyTwoRK4_def basis_c0_def basis_c1_def basis_c2_def power2_eq_square)
  then show ?thesis by blast
qed

theorem calcDiff_jacobian_counterexample:
  "coeff (dw_du (state_of (PolyTwoRK4_calcDiff (PolyTwoRK4 1)
       (state_of (PolyTwoRK4_calc (PolyTwoRK4 1) (zero_data 1) 0 [0, 0, 0])) 1 [0, 0, 0]))) 0 0 = 1 \<and>
   basis_c0 1 = 0"
  by (simp add: calc_Ok calcDiff_Ok PolyTwoRK4_def cols_diagonal_fill_def zero_data_def Zero_def
      basis_c0_def basis_c2_def)



text \<open>
  C8. \<open>multiplyByJacobian\<close> with \<open>A.rows \<noteq> out.rows\<close>, \<open>A.cols \<noteq> nw\<close> or \<open>out.cols \<noteq> nu\<close>, and
  \<open>multiplyJacobianTransposeBy\<close> with \<open>A.cols \<noteq> out.cols\<close>, \<open>A.rows \<noteq> nw\<close> or
  \<open>out.rows \<noteq> nu\<close>, throw the invalid-argument exception and leave \<open>out\<close> as it was. With
  an accumulation mode that is none of \<open>setto\<close>, \<open>addto\<close>, \<open>rmfrom\<close>, both throw the
  invalid-argument exception and leave \<open>out\<close> as it was, in a build with assertions and in
  a build without.
\<close>

theorem jacobian_products_reject_bad_arguments:
  "(rows A \<noteq> rows out \<or> cols A \<noteq> nw m \<or> cols out \<noteq> nu m \<longrightarrow>
      (\<exists>msg. multiplyByJacobian asserts m d A out op = Throw (InvalidArgument msg) out)) \<and>
   (cols A \<noteq> cols out \<or> rows A \<noteq> nw m \<or> rows out \<noteq> nu m \<longrightarrow>
      (\<exists>msg. multiplyJacobianTransposeBy asserts m d A out op = Throw (InvalidArgument msg) out)) \<and>
   (\<not> is_a_AssignmentOp op' \<longrightarrow>
      (\<exists>msg. multiplyByJacobian asserts m d A' out' op' = Throw (InvalidArgument msg) out') \<and>
      (\<exists>msg. multiplyJacobianTransposeBy asserts m d A' out' op' = Throw (InvalidArgument msg) out'))"
  by (cases op'; simp add: multiplyByJacobian_def multiplyJacobianTransposeBy_def
      is_a_AssignmentOp_def)

theorem jacobian_products_reject_bad_arguments_witness:
  "multiplyByJacobian False (PolyTwoRK4 1) (zero_data 1) (Zero 2 2) (Zero 2 3) setto =
     Throw (InvalidArgument ''A and out have wrong dimensions'') (Zero 2 3) \<and>
   multiplyJacobianTransposeBy False (PolyTwoRK4 1) (zero_data 1) (Zero 2 2) (Zero 2 3) setto =
     Throw (InvalidArgument ''A and out have wrong dimensions'') (Zero 2 3) \<and>
   multiplyByJacobian False (PolyTwoRK4 1) (zero_data 1) (Zero 2 1) (Zero 2 3) other_op =
     Throw (InvalidArgument ''allowed operators: setto, addto, rmfrom'') (Zero 2 3) \<and>
   multiplyJacobianTransposeBy False (PolyTwoRK4 1) (zero_data 1) (Zero 2 1) (Zero 2 3) other_op =
     Throw (InvalidArgument ''A and out have wrong dimensions'') (Zero 2 3)"
  using jacobian_products_reject_bad_arguments [of "Zero 2 2" "Zero 2 3" "PolyTwoRK4 1" False
      "zero_data 1" setto other_op "Zero 2 1" "Zero 2 3"]
  by (simp add: multiplyByJacobian_def multiplyJacobianTransposeBy_def is_a_AssignmentOp_def
      PolyTwoRK4_def Zero_def)

text \<open>
  C9. For every \<open>A\<close> with \<open>nw\<close> columns, every \<open>out\<close> with the rows of \<open>A\<close> and \<open>nu\<close> columns
  and each of the three accumulation modes, \<open>multiplyByJacobian(data, A, out, op)\<close> returns
  normally, and \<open>multiplyJacobianTransposeBy\<close> on the transposes of \<open>A\<close> and \<open>out\<close> returns
  normally with the transpose of its result. With \<open>nu = 3 nw\<close>, the first result is \<open>out\<close>
  overwritten by, increased by or decreased by the product of \<open>A\<close> and the block row
  \<open>[c0 I, c1 I, c2 I]\<close> of the coefficients in the data, and the second is the transpose of
  \<open>out\<close> overwritten by, increased by or decreased by the product of the transposed block row
  and the transpose of \<open>A\<close>.
\<close>

theorem jacobian_products_transpose_consistent:
  "rows A = rows out \<and> cols A = nw m \<and> cols out = nu m \<and> is_a_AssignmentOp op \<longrightarrow>
   (\<exists>res. multiplyByJacobian asserts m d A out op = Ok res \<and>
      multiplyJacobianTransposeBy asserts m d (mat_transpose A) (mat_transpose out) op =
        Ok (mat_transpose res) \<and>
      (nu m = 3 * nw m \<longrightarrow>
         rows res = rows out \<and> cols res = cols out \<and>
         (\<forall>i<rows out. \<forall>j<cols out.
            coeff res i j =
              accumulate op (coeff out i j)
                (coeff (mat_mul A (block_row (nw m) (d_c d 0) (d_c d 1) (d_c d 2))) i j) \<and>
            coeff (mat_transpose res) j i =
              accumulate op (coeff (mat_transpose out) j i)
                (coeff (mat_mul (mat_transpose (block_row (nw m) (d_c d 0) (d_c d 1) (d_c d 2)))
                          (mat_transpose A)) j i))))"
proof (intro impI)
  assume h: "rows A = rows out \<and> cols A = nw m \<and> cols out = nu m \<and> is_a_AssignmentOp op"
  with jacobian_products_transposed [of A out m op asserts d]
  obtain res where r: "multiplyByJacobian asserts m d A out op = Ok res"
    and t: "multiplyJacobianTransposeBy asserts m d (mat_transpose A) (mat_transpose out) op =
        Ok (mat_transpose res)"
    by blast
  have "rows res = rows out \<and> cols res = cols out \<and>
         (\<forall>i<rows out. \<forall>j<cols out.
            coeff res i j =
              accumulate op (coeff out i j)
                (coeff (mat_mul A (block_row (nw m) (d_c d 0) (d_c d 1) (d_c d 2))) i j) \<and>
            coeff (mat_transpose res) j i =
              accumulate op (coeff (mat_transpose out) j i)
                (coeff (mat_mul (mat_transpose (block_row (nw m) (d_c d 0) (d_c d 1) (d_c d 2)))
                          (mat_transpose A)) j i))"
    if n: "nu m = 3 * nw m"
  proof -
    from multiplyByJacobian_entries [of m A out op asserts d] h n r
    have e: "rows res = rows out" "cols res = cols out"
      "\<forall>i<rows out. \<forall>j<cols out. coeff res i j =
          accumulate op (coeff out i j)
            (third (nw m) j (d_c d 0) (d_c d 1) (d_c d 2) * coeff A i (j mod nw m))"
      by auto
    with h n show ?thesis
      by (simp add: coeff_mat_mul_block_row coeff_block_row_transpose_mat_mul)
        (simp add: mat_transpose_def)
  qed
  with r t show "\<exists>res. multiplyByJacobian asserts m d A out op = Ok res \<and>
      multiplyJacobianTransposeBy asserts m d (mat_transpose A) (mat_transpose out) op =
        Ok (mat_transpose res) \<and>
      (nu m = 3 * nw m \<longrightarrow>
         rows res = rows out \<and> cols res = cols out \<and>
         (\<forall>i<rows out. \<forall>j<cols out.
            coeff res i j =
              accumulate op (coeff out i j)
                (coeff (mat_mul A (block_row (nw m) (d_c d 0) (d_c d 1) (d_c d 2))) i j) \<and>
            coeff (mat_transpose res) j i =
              accumulate op (coeff (mat_transpose out) j i)
                (coeff (mat_mul (mat_transpose (block_row (nw m) (d_c d 0) (d_c d 1) (d_c d 2)))
                          (mat_transpose A)) j i)))"
    by blast
qed

theorem jacobian_products_transpose_consistent_witness:
  "\<exists>res. multiplyByJacobian True (PolyTwoRK4 1) quarter_data (of_rows 2 1 [[1], [2]])
            (of_rows 2 3 [[1, 2, 3], [4, 5, 6]]) addto = Ok res \<and>
      multiplyJacobianTransposeBy True (PolyTwoRK4 1) quarter_data
            (mat_transpose (of_rows 2 1 [[1], [2]]))
            (mat_transpose (of_rows 2 3 [[1, 2, 3], [4, 5, 6]])) addto = Ok (mat_transpose res) \<and>
      coeff res 0 0 = 11 / 8 \<and> coeff res 0 1 = 11 / 4 \<and> coeff res 0 2 = 23 / 8 \<and>
      coeff res 1 0 = 19 / 4 \<and> coeff res 1 1 = 13 / 2 \<and> coeff res 1 2 = 23 / 4"
proof -
  let ?A = "of_rows 2 1 [[1], [2]]" and ?out = "of_rows 2 3 [[1, 2, 3], [4, 5, 6]]"
  have h: "rows ?A = rows ?out \<and> cols ?A = nw (PolyTwoRK4 1) \<and> cols ?out = nu (PolyTwoRK4 1) \<and>
      is_a_AssignmentOp addto"
    by (simp add: of_rows_def PolyTwoRK4_def is_a_AssignmentOp_def)
  have n: "nu (PolyTwoRK4 1) = 3 * nw (PolyTwoRK4 1)"
    by (simp add: PolyTwoRK4_def)
  from jacobian_products_transpose_consistent [of ?A ?out "PolyTwoRK4 1" addto True quarter_data] h n
  obtain res where r: "multiplyByJacobian True (PolyTwoRK4 1) quarter_data ?A ?out addto = Ok res"
    "multiplyJacobianTransposeBy True (PolyTwoRK4 1) quarter_data (mat_transpose ?A)
       (mat_transpose ?out) addto = Ok (mat_transpose res)"
    and e: "\<forall>i<rows ?out. \<forall>j<cols ?out.
            coeff res i j =
              accumulate addto (coeff ?out i j)
                (coeff (mat_mul ?A (block_row (nw (PolyTwoRK4 1)) (d_c quarter_data 0)
                   (d_c quarter_data 1) (d_c quarter_data 2))) i j)"
    by blast
  have v: "coeff res i j =
      accumulate addto (coeff ?out i j)
        (coeff (mat_mul ?A (block_row 1 (3 / 8) (3 / 4) (- 1 / 8))) i j)"
    if "i < 2" "j < 3" for i j
    using e that by (simp add: of_rows_def PolyTwoRK4_def quarter_data_c)
  have "coeff res 0 0 = 11 / 8" "coeff res 0 1 = 11 / 4" "coeff res 0 2 = 23 / 8"
    "coeff res 1 0 = 19 / 4" "coeff res 1 1 = 13 / 2" "coeff res 1 2 = 23 / 4"
    by (simp_all add: v accumulate_def mat_mul_def block_row_def of_rows_def)
  with r show ?thesis by blast
qed

end
